theory Spec2Isabelle
  imports Complex_Main "HOL-Library.Word"
begin

section \<open>Values of the program\<close>

text \<open>
  A Node \<open>Buffer\<close> is a sequence of bytes. The program never looks inside one: it hands
  buffers to the WAV decoder, the WAV encoder, the file system and the recognition client.
\<close>

type_synonym byte = "8 word"
type_synonym bytes = "byte list"

text \<open>
  Values thrown by the program or by one of its collaborators. \<open>Error msg\<close> is
  \<open>new Error(msg)\<close>; \<open>TypeError\<close> is the runtime error of reading a property of
  \<open>undefined\<close>; \<open>SystemError\<close> is a failed file-system call.
\<close>

datatype exn = Error string | TypeError string | SystemError string

text \<open>
  A JavaScript number: a finite value, an infinity, or \<open>NaN\<close>, which is what arithmetic
  yields once an operand is \<open>undefined\<close>. The finite values a computation produces are
  those of its floating-point format, by the rounding defined below; the sign of zero is
  left out.
\<close>

datatype number = Num real | PosInf | NegInf | NaN

text \<open>The object returned by \<open>wav.decode\<close> and accepted by \<open>wavEncoder.encode\<close>.\<close>

record waveform =
  sampleRate :: nat
  channelData :: "number list list"

section \<open>Floating-point rounding\<close>

text \<open>The nearest integer, the even one of two that are equally near.\<close>

definition round_even :: "real \<Rightarrow> int" where
  "round_even x =
     (let n = \<lfloor>x\<rfloor>; r = x - of_int n in
      if r < 1 / 2 then n else if 1 / 2 < r then n + 1 else if even n then n else n + 1)"

text \<open>
  The binary exponent of a positive number, \<open>e\<close> with \<open>2^e \<le> x < 2^(e+1)\<close>, found by
  halving or doubling at most \<open>n\<close> times.
\<close>

fun binade :: "nat \<Rightarrow> real \<Rightarrow> int" where
  "binade 0 x = 0"
| "binade (Suc n) x =
     (if 2 \<le> x then binade n (x / 2) + 1
      else if x < 1 then binade n (2 * x) - 1
      else 0)"

text \<open>
  Rounding to the nearest number of a binary format with \<open>p\<close> significant bits and
  exponents from \<open>emin\<close> to \<open>emax\<close>, ties to even: the exponent of the argument, kept
  within the format's range (below it the numbers are subnormal), gives the spacing \<open>q\<close>
  of the format there; a result of magnitude \<open>2^(emax+1)\<close> or more is an infinity.
\<close>

definition float_round :: "nat \<Rightarrow> int \<Rightarrow> int \<Rightarrow> real \<Rightarrow> number" where
  "float_round p emin emax x =
     (if x = 0 then Num 0
      else
        let e = max emin (min emax (binade (nat (max emax (- emin)) + 1) \<bar>x\<bar>));
            q = 2 powi (e - int p + 1);
            y = of_int (round_even (x / q)) * q
        in if 2 powi (emax + 1) \<le> y then PosInf
           else if y \<le> - (2 powi (emax + 1)) then NegInf
           else Num y)"

text \<open>
  The result of an arithmetic operation is a double (64 bits); a value stored in a
  \<open>Float32Array\<close> is rounded as \<open>Math.fround\<close> does (32 bits).
\<close>

definition to_double :: "real \<Rightarrow> number" where
  "to_double = float_round 53 (- 1022) 1023"

definition fround :: "real \<Rightarrow> number" where
  "fround = float_round 24 (- 126) 127"

section \<open>Sample arithmetic\<close>

text \<open>\<open>xs[i]\<close>: reading past the end of an array yields \<open>undefined\<close> (here \<open>None\<close>).\<close>

definition js_index :: "number list \<Rightarrow> nat \<Rightarrow> number option" where
  "js_index xs i = (if i < length xs then Some (xs ! i) else None)"

text \<open>The coercion applied by an arithmetic operator: \<open>undefined\<close> becomes \<open>NaN\<close>.\<close>

fun to_number :: "number option \<Rightarrow> number" where
  "to_number None = NaN"
| "to_number (Some x) = x"

text \<open>The operator \<open>+\<close> on numbers.\<close>

fun num_add :: "number \<Rightarrow> number \<Rightarrow> number" where
  "num_add (Num x) (Num y) = to_double (x + y)"
| "num_add NaN b = NaN"
| "num_add a NaN = NaN"
| "num_add PosInf NegInf = NaN"
| "num_add NegInf PosInf = NaN"
| "num_add PosInf b = PosInf"
| "num_add a PosInf = PosInf"
| "num_add NegInf b = NegInf"
| "num_add a NegInf = NegInf"

definition js_add :: "number option \<Rightarrow> number option \<Rightarrow> number" where
  "js_add a b = num_add (to_number a) (to_number b)"

text \<open>Division by the literal \<open>2\<close>.\<close>

fun js_half :: "number \<Rightarrow> number" where
  "js_half (Num x) = to_double (x / 2)"
| "js_half PosInf = PosInf"
| "js_half NegInf = NegInf"
| "js_half NaN = NaN"

text \<open>Storing a number in a \<open>Float32Array\<close>.\<close>

fun to_float32 :: "number \<Rightarrow> number" where
  "to_float32 (Num x) = fround x"
| "to_float32 PosInf = PosInf"
| "to_float32 NegInf = NegInf"
| "to_float32 NaN = NaN"

section \<open>The channel downmixer\<close>

text \<open>
  \<open>decoded.channelData[0].map((_, i) => (decoded.channelData[0][i] + decoded.channelData[1][i]) / 2)\<close>:
  one output sample for every index of the first channel; the second channel is read at
  the same index, whatever its length. The channels that \<open>node-wav\<close> decodes are
  \<open>Float32Array\<close>s, so \<open>map\<close> builds a \<open>Float32Array\<close>: each mean, computed in
  doubles, is stored rounded to 32 bits.
\<close>

definition monoChannel :: "number list \<Rightarrow> number list \<Rightarrow> number list" where
  "monoChannel c0 c1 =
     map (\<lambda>i. to_float32 (js_half (js_add (js_index c0 i) (js_index c1 i))))
       [0..<length c0]"

text \<open>
  \<open>convertToMonoBuffer\<close> of \<open>speechtxt.js\<close>. The decoder and the encoder are the
  libraries \<open>node-wav\<close> and \<open>wav-encoder\<close>; both may throw. With no channel at all,
  \<open>decoded.channelData[0]\<close> is \<open>undefined\<close> and calling \<open>map\<close> on it throws a
  \<open>TypeError\<close>. With two or more channels only the first two are read.
\<close>

definition convertToMonoBuffer ::
  "(bytes \<Rightarrow> exn + waveform) \<Rightarrow> (waveform \<Rightarrow> exn + bytes) \<Rightarrow> bytes \<Rightarrow> exn + bytes" where
  "convertToMonoBuffer decode encode inputBuffer =
     (case decode inputBuffer of
        Inl e \<Rightarrow> Inl e
      | Inr decoded \<Rightarrow>
          (case channelData decoded of
             [c] \<Rightarrow> Inr inputBuffer
           | [] \<Rightarrow> Inl (TypeError ''Cannot read properties of undefined (reading map)'')
           | c0 # c1 # others \<Rightarrow>
               encode \<lparr>sampleRate = sampleRate decoded,
                           channelData = [monoChannel c0 c1]\<rparr>))"

text \<open>\<open>getSampleRateFromWavBuffer\<close>: the sample rate the decoder reads from a buffer.\<close>

definition getSampleRateFromWavBuffer ::
  "(bytes \<Rightarrow> exn + waveform) \<Rightarrow> bytes \<Rightarrow> exn + nat" where
  "getSampleRateFromWavBuffer decode inputBuffer =
     (case decode inputBuffer of
        Inl e \<Rightarrow> Inl e
      | Inr decoded \<Rightarrow> Inr (sampleRate decoded))"

section \<open>The file system\<close>

text \<open>
  The files on disk, and which paths can be written. \<open>fs.writeFileSync\<close> throws where
  the path cannot be written, \<open>fs.readFileSync\<close> where the file does not exist. The
  program calls no other file-system function: it never removes a file.
\<close>

record filesystem =
  files :: "string \<rightharpoonup> bytes"
  writable :: "string \<Rightarrow> bool"

definition writeFileSync :: "filesystem \<Rightarrow> string \<Rightarrow> bytes \<Rightarrow> exn + filesystem" where
  "writeFileSync fs p d =
     (if writable fs p then Inr (fs\<lparr>files := (files fs)(p \<mapsto> d)\<rparr>)
      else Inl (SystemError ''EACCES''))"

definition readFileSync :: "filesystem \<Rightarrow> string \<Rightarrow> exn + bytes" where
  "readFileSync fs p =
     (case files fs p of None \<Rightarrow> Inl (SystemError ''ENOENT'') | Some d \<Rightarrow> Inr d)"

text \<open>\<open>path.join\<close> of a directory and a file name.\<close>

definition path_join :: "string \<Rightarrow> string \<Rightarrow> string" where
  "path_join d f = d @ ''/'' @ f"

section \<open>Collaborators\<close>

text \<open>The request sent to the speech recognition service.\<close>

record recognize_request =
  content :: string
  encoding :: string
  sampleRateHertz :: nat
  languageCode :: string

text \<open>
  The columns of the \<open>Speechtotext\<close> table given to \<open>create\<close> (the column \<open>text\<close> is
  \<open>text_col\<close> here), and a stored row, which has its \<open>id\<close> as well. The timestamps
  the database adds are left out.
\<close>

record transcription_values =
  audioUrl :: string
  text_col :: string
  fileName :: string
  createdByEmail :: string

record row = transcription_values +
  row_id :: string

text \<open>
  Everything the program calls and does not define: the WAV decoder and encoder,
  \<open>Buffer.toString('base64')\<close>, the recognition client (its results, each a list of
  alternative transcripts), the storage bucket's \<open>file.save\<close> and its name, the table's
  \<open>create\<close> and \<open>findAll\<close> (given the rows stored so far), \<open>__dirname\<close>, the path of
  the ffmpeg binary, \<open>execSync\<close> (which may throw and may change the files either way),
  \<open>path.parse(...).name\<close>, and the file name multer's disk storage picks for an upload.
\<close>

record env =
  wav_decode :: "bytes \<Rightarrow> exn + waveform"
  wav_encode :: "waveform \<Rightarrow> exn + bytes"
  toBase64 :: "bytes \<Rightarrow> string"
  recognize :: "recognize_request \<Rightarrow> exn + string list list"
  file_save :: "string \<Rightarrow> string \<Rightarrow> exn option"
  bucket_name :: string
  db_create :: "row list \<Rightarrow> transcription_values \<Rightarrow> exn + row"
  db_findAll :: "row list \<Rightarrow> string \<Rightarrow> exn + row list"
  dirname :: string
  ffmpeg :: string
  execSync :: "string \<Rightarrow> filesystem \<Rightarrow> exn option \<times> filesystem"
  parse_name :: "string \<Rightarrow> string"
  upload_name :: string

section \<open>The format normalizer\<close>

text \<open>The command line \<open>${ffmpeg} -i ${input} -acodec pcm_s16le -ar 16000 ${output}\<close>.\<close>

definition ffmpeg_command :: "string \<Rightarrow> string \<Rightarrow> string \<Rightarrow> string" where
  "ffmpeg_command bin input output =
     bin @ '' -i '' @ input @ '' -acodec pcm_s16le -ar 16000 '' @ output"

definition conversion_error :: exn where
  "conversion_error = Error ''Error saat konversi audio ke WAV.''"

text \<open>
  \<open>convertAudioToWavBuffer\<close> of \<open>speechtxt.js\<close>: the input is written to \<open>temp.wav\<close>,
  ffmpeg is run from it to \<open>output.wav\<close>, and the path of the output is returned. Whatever
  is thrown inside the \<open>try\<close> block is replaced by one and the same \<open>Error\<close>.
\<close>

definition convertAudioToWavBuffer ::
  "env \<Rightarrow> bytes \<Rightarrow> filesystem \<Rightarrow> (exn + string) \<times> filesystem" where
  "convertAudioToWavBuffer E inputBuffer fs =
     (let tempWavFile = path_join (dirname E) ''temp.wav'' in
      case writeFileSync fs tempWavFile inputBuffer of
        Inl e \<Rightarrow> (Inl conversion_error, fs)
      | Inr fs1 \<Rightarrow>
          (let outputWavFile = path_join (dirname E) ''output.wav'' in
           case execSync E (ffmpeg_command (ffmpeg E) tempWavFile outputWavFile) fs1 of
             (Some e, fs2) \<Rightarrow> (Inl conversion_error, fs2)
           | (None, fs2) \<Rightarrow> (Inr outputWavFile, fs2)))"

text \<open>\<open>convertAudioToWav\<close> of the file-based version: the caller names both files.\<close>

definition convertAudioToWav ::
  "env \<Rightarrow> string \<Rightarrow> string \<Rightarrow> filesystem \<Rightarrow> (exn + string) \<times> filesystem" where
  "convertAudioToWav E inputFile tempWavFile fs =
     (case execSync E (ffmpeg_command (ffmpeg E) inputFile tempWavFile) fs of
        (Some e, fs1) \<Rightarrow> (Inl conversion_error, fs1)
      | (None, fs1) \<Rightarrow> (Inr tempWavFile, fs1))"

section \<open>The file-based downmixer\<close>

text \<open>
  \<open>convertToMono\<close> of the file-based version: the same computation, reading the input
  from a file, writing the result to another and returning the sample rate.
\<close>

definition convertToMono ::
  "(bytes \<Rightarrow> exn + waveform) \<Rightarrow> (waveform \<Rightarrow> exn + bytes) \<Rightarrow> string \<Rightarrow> string \<Rightarrow>
   filesystem \<Rightarrow> (exn + nat) \<times> filesystem" where
  "convertToMono decode encode inputFile outputFile fs =
     (case readFileSync fs inputFile of
        Inl e \<Rightarrow> (Inl e, fs)
      | Inr buffer \<Rightarrow>
          (case decode buffer of
             Inl e \<Rightarrow> (Inl e, fs)
           | Inr decoded \<Rightarrow>
               (case channelData decoded of
                  [c] \<Rightarrow>
                    (case writeFileSync fs outputFile buffer of
                       Inl e \<Rightarrow> (Inl e, fs)
                     | Inr fs1 \<Rightarrow> (Inr (sampleRate decoded), fs1))
                | [] \<Rightarrow>
                    (Inl (TypeError ''Cannot read properties of undefined (reading map)''), fs)
                | c0 # c1 # others \<Rightarrow>
                    (case encode \<lparr>sampleRate = sampleRate decoded,
                                       channelData = [monoChannel c0 c1]\<rparr> of
                       Inl e \<Rightarrow> (Inl e, fs)
                     | Inr encoded \<Rightarrow>
                         (case writeFileSync fs outputFile encoded of
                            Inl e \<Rightarrow> (Inl e, fs)
                          | Inr fs1 \<Rightarrow> (Inr (sampleRate decoded), fs1))))))"

section \<open>The server and its requests\<close>

text \<open>
  What a request can change: the rows of the table, the objects of the storage bucket,
  the requests sent to the recognition service so far, and the disk.
\<close>

record server =
  db :: "row list"
  bucket :: "string \<rightharpoonup> string"
  recognized :: "recognize_request list"
  disk :: filesystem

text \<open>
  A request as it arrives: a multipart form with its fields and, possibly, a file part
  named \<open>audio\<close>, or any other request, whose \<open>req.body\<close> is what \<open>express.json\<close> and
  \<open>express.urlencoded\<close> left: an object with the fields it has, or \<open>undefined\<close>
  (\<open>None\<close>) where the installed version of the framework leaves it so when there is
  nothing to parse.
\<close>

record form_fields =
  email :: "string option"
  title :: "string option"

record audio_part =
  mimetype :: string
  file_bytes :: bytes

datatype http_request =
    Multipart form_fields "audio_part option"
  | Plain "form_fields option"

text \<open>
  The request the handler sees, after \<open>upload.single('audio')\<close>: \<open>req.body\<close>, possibly
  undefined, and \<open>req.file\<close>, possibly undefined. With memory storage the file carries
  its bytes; with disk storage it carries the name multer gave it and the path it was
  stored at.
\<close>

record 'f request =
  req_body :: "form_fields option"
  req_file :: "'f option"

record memory_upload =
  buffer :: bytes

record disk_upload =
  filename :: string
  path :: string

text \<open>
  The bodies of the responses; \<open>UnhandledError\<close> is the page the framework's own error
  handler sends, with status \<open>500\<close>, for an error passed on by a middleware.
\<close>

datatype body =
    ErrorBody string
  | FailureBody string
  | MessageBody string
  | CreatedBody string row
  | DataBody "row list"
  | UnhandledError exn

section \<open>The upload middleware\<close>

text \<open>
  The configuration of multer: the file filter, which accepts six MIME types and passes
  an error on for any other, and the size limit of 10 MB.
\<close>

definition allowedMimes :: "string list" where
  "allowedMimes =
     [''audio/wav'', ''audio/ogg'', ''audio/mp3'', ''audio/x-wav'', ''audio/x-pn-wav'',
      ''audio/wave'']"

definition fileFilter :: "audio_part \<Rightarrow> exn option" where
  "fileFilter part =
     (if mimetype part \<in> set allowedMimes then None
      else Some (Error ''Format file tidak didukung. Hanya WAV, OGG, MP3 diperbolehkan.''))"

definition fileSize :: nat where
  "fileSize = 10 * 1024 * 1024"

text \<open>
  \<open>upload.single('audio')\<close> with memory storage (\<open>speechtxt.js\<close>): a request that is
  not a multipart form is passed on as it is; a file part is filtered, then read up to the
  size limit.
\<close>

definition upload_single :: "http_request \<Rightarrow> exn + memory_upload request" where
  "upload_single r =
     (case r of
        Plain b \<Rightarrow> Inr \<lparr>req_body = b, req_file = None\<rparr>
      | Multipart b None \<Rightarrow> Inr \<lparr>req_body = Some b, req_file = None\<rparr>
      | Multipart b (Some part) \<Rightarrow>
          (case fileFilter part of
             Some e \<Rightarrow> Inl e
           | None \<Rightarrow>
               if fileSize < length (file_bytes part) then Inl (Error ''File too large'')
               else Inr \<lparr>req_body = Some b, req_file = Some \<lparr>buffer = file_bytes part\<rparr>\<rparr>))"

text \<open>
  The same with disk storage (the file-based version, \<open>dest: 'uploads/'\<close>): an accepted
  file is written under \<open>uploads\<close> before the handler runs.
\<close>

definition upload_single_files ::
  "env \<Rightarrow> http_request \<Rightarrow> filesystem \<Rightarrow> (exn + disk_upload request) \<times> filesystem" where
  "upload_single_files E r fs =
     (case r of
        Plain b \<Rightarrow> (Inr \<lparr>req_body = b, req_file = None\<rparr>, fs)
      | Multipart b None \<Rightarrow> (Inr \<lparr>req_body = Some b, req_file = None\<rparr>, fs)
      | Multipart b (Some part) \<Rightarrow>
          (case fileFilter part of
             Some e \<Rightarrow> (Inl e, fs)
           | None \<Rightarrow>
               if fileSize < length (file_bytes part) then (Inl (Error ''File too large''), fs)
               else
                 (case writeFileSync fs (path_join ''uploads'' (upload_name E))
                         (file_bytes part) of
                    Inl e \<Rightarrow> (Inl e, fs)
                  | Inr fs1 \<Rightarrow>
                      (Inr \<lparr>req_body = Some b,
                            req_file = Some \<lparr>filename = upload_name E,
                                              path = path_join ''uploads'' (upload_name E)\<rparr>\<rparr>,
                       fs1))))"

record response =
  status :: nat
  body :: body

section \<open>Transcription and storage\<close>

text \<open>
  \<open>response.results.map(r => r.alternatives[0].transcript)\<close>: a result with no
  alternative makes \<open>r.alternatives[0]\<close> undefined, and reading its transcript throws.
\<close>

fun first_transcripts :: "string list list \<Rightarrow> exn + string list" where
  "first_transcripts [] = Inr []"
| "first_transcripts ([] # rs) =
     Inl (TypeError ''Cannot read properties of undefined (reading transcript)'')"
| "first_transcripts ((a # as) # rs) =
     (case first_transcripts rs of Inl e \<Rightarrow> Inl e | Inr ts \<Rightarrow> Inr (a # ts))"

text \<open>\<open>Array.prototype.join\<close>.\<close>

fun join :: "string \<Rightarrow> string list \<Rightarrow> string" where
  "join sep [] = []"
| "join sep [x] = x"
| "join sep (x # y # ys) = x @ sep @ join sep (y # ys)"

definition newline :: string where
  "newline = [CHR 0x0A]"

definition send_recognize ::
  "env \<Rightarrow> recognize_request \<Rightarrow> server \<Rightarrow> (exn + string) \<times> server" where
  "send_recognize E request s =
     (let s1 = s\<lparr>recognized := recognized s @ [request]\<rparr> in
      case recognize E request of
        Inl e \<Rightarrow> (Inl e, s1)
      | Inr results \<Rightarrow>
          (case first_transcripts results of
             Inl e \<Rightarrow> (Inl e, s1)
           | Inr ts \<Rightarrow> (Inr (join newline ts), s1)))"

text \<open>\<open>transcribeAudioBuffer\<close> of \<open>speechtxt.js\<close>.\<close>

definition transcribeAudioBuffer ::
  "env \<Rightarrow> bytes \<Rightarrow> server \<Rightarrow> (exn + string) \<times> server" where
  "transcribeAudioBuffer E audioBuffer s =
     (case getSampleRateFromWavBuffer (wav_decode E) audioBuffer of
        Inl e \<Rightarrow> (Inl e, s)
      | Inr rate \<Rightarrow>
          send_recognize E
            \<lparr>content = toBase64 E audioBuffer, encoding = ''LINEAR16'',
             sampleRateHertz = rate, languageCode = ''id-ID''\<rparr> s)"

text \<open>\<open>transcribeAudio\<close> of the file-based version.\<close>

definition transcribeAudio ::
  "env \<Rightarrow> string \<Rightarrow> nat \<Rightarrow> server \<Rightarrow> (exn + string) \<times> server" where
  "transcribeAudio E audiofile rate s =
     (case readFileSync (disk s) audiofile of
        Inl e \<Rightarrow> (Inl e, s)
      | Inr contents \<Rightarrow>
          send_recognize E
            \<lparr>content = toBase64 E contents, encoding = ''LINEAR16'',
             sampleRateHertz = rate, languageCode = ''id-ID''\<rparr> s)"

text \<open>\<open>saveTranscriptionToCloud\<close>, the same in both versions.\<close>

definition saveTranscriptionToCloud ::
  "env \<Rightarrow> string \<Rightarrow> string \<Rightarrow> server \<Rightarrow> (exn + string) \<times> server" where
  "saveTranscriptionToCloud E transcription name s =
     (let object = ''transcriptions/'' @ name @ ''.txt'' in
      case file_save E object transcription of
        Some e \<Rightarrow> (Inl e, s)
      | None \<Rightarrow>
          (Inr (''https://storage.googleapis.com/'' @ bucket_name E @ ''/transcriptions/''
                  @ name @ ''.txt''),
           s\<lparr>bucket := (bucket s)(object \<mapsto> transcription)\<rparr>))"

text \<open>\<open>Speechtotext.create\<close>, followed by the response \<open>201\<close>.\<close>

definition required_fields :: response where
  "required_fields = \<lparr>status = 400, body = ErrorBody ''Email, title, and audio file are required''\<rparr>"

definition failed_to_create :: response where
  "failed_to_create = \<lparr>status = 500, body = FailureBody ''Failed to create transcription''\<rparr>"

definition create_row :: "env \<Rightarrow> transcription_values \<Rightarrow> server \<Rightarrow> response \<times> server" where
  "create_row E vals s =
     (case db_create E (db s) vals of
        Inl e \<Rightarrow> (failed_to_create, s)
      | Inr transcriptionData \<Rightarrow>
          (\<lparr>status = 201,
            body = CreatedBody ''Transcription created successfully'' transcriptionData\<rparr>,
           s\<lparr>db := db s @ [transcriptionData]\<rparr>))"

section \<open>The upload handler\<close>

text \<open>
  The steps of the handler of \<open>speechtxt.js\<close> after its check of the request: the
  downmixer, the transcription, the upload of the transcript and the new row. This
  handler does not call \<open>convertAudioToWavBuffer\<close>. Every exception is caught by the
  one \<open>catch\<close>, which answers \<open>500\<close>.
\<close>

definition process_upload ::
  "env \<Rightarrow> string \<Rightarrow> string \<Rightarrow> memory_upload \<Rightarrow> server \<Rightarrow> response \<times> server" where
  "process_upload E em ti f s =
     (case convertToMonoBuffer (wav_decode E) (wav_encode E) (buffer f) of
        Inl e \<Rightarrow> (failed_to_create, s)
      | Inr monoBuffer \<Rightarrow>
          (case transcribeAudioBuffer E monoBuffer s of
             (Inl e, s1) \<Rightarrow> (failed_to_create, s1)
           | (Inr transcription, s1) \<Rightarrow>
               (case saveTranscriptionToCloud E transcription ti s1 of
                  (Inl e, s2) \<Rightarrow> (failed_to_create, s2)
                | (Inr transcriptionUrl, s2) \<Rightarrow>
                    create_row E
                      \<lparr>audioUrl = transcriptionUrl, text_col = transcription,
                       fileName = ti, createdByEmail = em\<rparr> s2)))"

text \<open>
  The handler of \<open>app.post("/speechtotext", ...)\<close> of \<open>speechtxt.js\<close>. With
  \<open>req.body\<close> undefined, \<open>const { email, title } = req.body\<close> throws inside the
  \<open>try\<close> and the \<open>catch\<close> answers \<open>500\<close>. \<open>!email\<close> holds of a missing field and of
  the empty string.
\<close>

definition post_speechtotext ::
  "env \<Rightarrow> memory_upload request \<Rightarrow> server \<Rightarrow> response \<times> server" where
  "post_speechtotext E req s =
     (case req_body req of
        None \<Rightarrow> (failed_to_create, s)
      | Some b \<Rightarrow>
          (case (email b, title b, req_file req) of
             (Some em, Some ti, Some f) \<Rightarrow>
               if em = [] \<or> ti = [] then (required_fields, s)
               else process_upload E em ti f s
           | _ \<Rightarrow> (required_fields, s)))"

text \<open>
  The route: the middleware, then the handler. An error of the middleware goes to the
  framework's error handler and the handler does not run.
\<close>

definition post_route :: "env \<Rightarrow> http_request \<Rightarrow> server \<Rightarrow> response \<times> server" where
  "post_route E r s =
     (case upload_single r of
        Inl e \<Rightarrow> (\<lparr>status = 500, body = UnhandledError e\<rparr>, s)
      | Inr req \<Rightarrow> post_speechtotext E req s)"

text \<open>
  The same for the file-based version, whose pipeline starts with the normalizer. Its two
  working files are named after the upload:
  \<open>path.join('uploads', `${path.parse(file.filename).name}_temp.wav`)\<close> and the same
  with \<open>_mono.wav\<close>.
\<close>

definition temp_path :: "env \<Rightarrow> disk_upload \<Rightarrow> string" where
  "temp_path E f = path_join ''uploads'' (parse_name E (filename f) @ ''_temp.wav'')"

definition mono_path :: "env \<Rightarrow> disk_upload \<Rightarrow> string" where
  "mono_path E f = path_join ''uploads'' (parse_name E (filename f) @ ''_mono.wav'')"

definition process_upload_files ::
  "env \<Rightarrow> string \<Rightarrow> disk_upload \<Rightarrow> server \<Rightarrow> response \<times> server" where
  "process_upload_files E em f s =
     (let tempWavFile = temp_path E f;
          monoFile = mono_path E f
      in
      case convertAudioToWav E (path f) tempWavFile (disk s) of
        (Inl e, fs1) \<Rightarrow> (failed_to_create, s\<lparr>disk := fs1\<rparr>)
      | (Inr converted, fs1) \<Rightarrow>
          (case convertToMono (wav_decode E) (wav_encode E) tempWavFile monoFile fs1 of
             (Inl e, fs2) \<Rightarrow> (failed_to_create, s\<lparr>disk := fs2\<rparr>)
           | (Inr rate, fs2) \<Rightarrow>
               (case transcribeAudio E monoFile rate (s\<lparr>disk := fs2\<rparr>) of
                  (Inl e, s1) \<Rightarrow> (failed_to_create, s1)
                | (Inr transcription, s1) \<Rightarrow>
                    (case saveTranscriptionToCloud E transcription (filename f) s1 of
                       (Inl e, s2) \<Rightarrow> (failed_to_create, s2)
                     | (Inr transcriptionUrl, s2) \<Rightarrow>
                         create_row E
                           \<lparr>audioUrl = transcriptionUrl, text_col = transcription,
                            fileName = filename f, createdByEmail = em\<rparr> s2))))"

definition post_speechtotext_files ::
  "env \<Rightarrow> disk_upload request \<Rightarrow> server \<Rightarrow> response \<times> server" where
  "post_speechtotext_files E req s =
     (case req_body req of
        None \<Rightarrow> (failed_to_create, s)
      | Some b \<Rightarrow>
          (case (email b, title b, req_file req) of
             (Some em, Some ti, Some f) \<Rightarrow>
               if em = [] \<or> ti = [] then (required_fields, s)
               else process_upload_files E em f s
           | _ \<Rightarrow> (required_fields, s)))"

definition post_route_files :: "env \<Rightarrow> http_request \<Rightarrow> server \<Rightarrow> response \<times> server" where
  "post_route_files E r s =
     (case upload_single_files E r (disk s) of
        (Inl e, fs) \<Rightarrow> (\<lparr>status = 500, body = UnhandledError e\<rparr>, s\<lparr>disk := fs\<rparr>)
      | (Inr req, fs) \<Rightarrow> post_speechtotext_files E req (s\<lparr>disk := fs\<rparr>))"

section \<open>The lookup handler\<close>

text \<open>\<open>app.get("/speechtotext/:email", ...)\<close>, the same in both versions.\<close>

definition get_speechtotext :: "env \<Rightarrow> string \<Rightarrow> server \<Rightarrow> response" where
  "get_speechtotext E em s =
     (if em = [] then \<lparr>status = 400, body = ErrorBody ''Email parameter is required''\<rparr>
      else
        (case db_findAll E (db s) em of
           Inl e \<Rightarrow> \<lparr>status = 500, body = FailureBody ''Failed to fetch transcriptions''\<rparr>
         | Inr transcriptions \<Rightarrow>
             if length transcriptions = 0
             then \<lparr>status = 404, body = MessageBody ''No transcriptions found for this email''\<rparr>
             else \<lparr>status = 200, body = DataBody transcriptions\<rparr>))"

section \<open>The range of samples\<close>

text \<open>The range of the samples of a waveform: a number between \<open>-1\<close> and \<open>1\<close>.\<close>

definition in_range :: "number \<Rightarrow> bool" where
  "in_range x = (case x of Num v \<Rightarrow> - 1 \<le> v \<and> v \<le> 1 | _ \<Rightarrow> False)"

section \<open>Sample data\<close>

text \<open>
  Concrete waveforms, and a decoder and an encoder given by a table over a few buffers,
  on which the functions above can be run: a mono and a stereo waveform at 16000 Hz, one
  with three channels, one with none, and a stereo waveform of one sample, \<open>1\<close> on the
  left and \<open>2^-24\<close> on the right, both of them 32-bit floats.
\<close>

definition mono_wave :: waveform where
  "mono_wave = \<lparr>sampleRate = 16000, channelData = [[Num 0, Num 0]]\<rparr>"

definition stereo_wave :: waveform where
  "stereo_wave =
     \<lparr>sampleRate = 16000, channelData = [[Num 1, Num (- 1)], [Num (- 1), Num 1]]\<rparr>"

definition surround_wave :: waveform where
  "surround_wave =
     \<lparr>sampleRate = 16000,
      channelData = [[Num 1, Num (- 1)], [Num (- 1), Num 1], [Num 1, Num 1]]\<rparr>"

definition empty_wave :: waveform where
  "empty_wave = \<lparr>sampleRate = 16000, channelData = []\<rparr>"

definition tie_wave :: waveform where
  "tie_wave = \<lparr>sampleRate = 16000, channelData = [[Num 1], [Num (1 / 16777216)]]\<rparr>"

definition table_decode :: "bytes \<Rightarrow> exn + waveform" where
  "table_decode b =
     (if b = [1] then Inr mono_wave
      else if b = [2] then Inr stereo_wave
      else if b = [3] then Inr surround_wave
      else if b = [4] then Inr empty_wave
      else if b = [5] then Inr tie_wave
      else Inl (Error ''Invalid WAV file''))"

definition table_encode :: "waveform \<Rightarrow> exn + bytes" where
  "table_encode w = (if w = mono_wave then Inr [1] else Inl (Error ''cannot encode''))"

definition sample_disk :: filesystem where
  "sample_disk = \<lparr>files = [''uploads/in.wav'' \<mapsto> [1]], writable = (\<lambda>p. True)\<rparr>"

text \<open>
  A database that stores every row under the same id and looks rows up by their email, a
  transcoder that writes a stereo file to \<open>/app/output.wav\<close>, one that throws a given
  error, and environments and a server built from them: one where everything works, two
  where the transcoder throws and one where the bucket cannot be written.
\<close>

definition insert_row :: "row list \<Rightarrow> transcription_values \<Rightarrow> exn + row" where
  "insert_row rows v =
     Inr \<lparr>audioUrl = audioUrl v, text_col = text_col v, fileName = fileName v,
          createdByEmail = createdByEmail v, row_id = ''1''\<rparr>"

definition rows_of :: "row list \<Rightarrow> string \<Rightarrow> exn + row list" where
  "rows_of rows em = Inr (filter (\<lambda>r. createdByEmail r = em) rows)"

definition run_ffmpeg :: "string \<Rightarrow> filesystem \<Rightarrow> exn option \<times> filesystem" where
  "run_ffmpeg cmd fs = (None, fs\<lparr>files := (files fs)(''/app/output.wav'' \<mapsto> [2])\<rparr>)"

definition failing_exec :: "exn \<Rightarrow> string \<Rightarrow> filesystem \<Rightarrow> exn option \<times> filesystem" where
  "failing_exec e cmd fs = (Some e, fs)"

definition sample_env :: env where
  "sample_env =
     \<lparr>wav_decode = table_decode, wav_encode = table_encode,
      toBase64 = (\<lambda>b. ''base64''),
      recognize = (\<lambda>r. Inr [[''halo'', ''hallo''], [''dunia'']]),
      file_save = (\<lambda>object contents. None),
      bucket_name = ''bucket'',
      db_create = insert_row, db_findAll = rows_of,
      dirname = ''/app'', ffmpeg = ''ffmpeg'',
      execSync = run_ffmpeg,
      parse_name = (\<lambda>n. n),
      upload_name = ''in.wav''\<rparr>"

definition rejecting_env :: env where
  "rejecting_env =
     sample_env\<lparr>execSync := failing_exec (Error ''Invalid data found when processing input'')\<rparr>"

definition crashing_env :: env where
  "crashing_env = sample_env\<lparr>execSync := failing_exec (Error ''spawnSync ffmpeg ENOENT'')\<rparr>"

definition offline_env :: env where
  "offline_env = sample_env\<lparr>file_save := (\<lambda>object contents. Some (Error ''storage unavailable''))\<rparr>"

definition sample_server :: server where
  "sample_server = \<lparr>db = [], bucket = Map.empty, recognized = [], disk = sample_disk\<rparr>"

definition readonly_disk :: filesystem where
  "readonly_disk = \<lparr>files = Map.empty, writable = (\<lambda>p. False)\<rparr>"

text \<open>
  A request seen by the handler is incomplete when its body is an object and a field is
  missing or is the empty string, or the file is missing. An arriving request lacks an
  item when the email field, the title field or the audio file is missing.
\<close>

definition incomplete :: "'f request \<Rightarrow> bool" where
  "incomplete req =
     (case req_body req of
        None \<Rightarrow> False
      | Some b \<Rightarrow>
          email b = None \<or> email b = Some [] \<or> title b = None \<or> title b = Some []
          \<or> req_file req = None)"

definition lacking :: "http_request \<Rightarrow> bool" where
  "lacking r =
     (case r of
        Plain b \<Rightarrow> True
      | Multipart b part \<Rightarrow> email b = None \<or> title b = None \<or> part = None)"

section \<open>Properties of the rounding\<close>


lemma float_round_zero [simp]: "float_round p emin emax 0 = Num 0"
  by (simp add: float_round_def)


lemma round_even_near: "\<bar>of_int (round_even t) - t\<bar> \<le> 1 / 2"
proof -
  have "of_int \<lfloor>t\<rfloor> \<le> t" and "t < of_int \<lfloor>t\<rfloor> + 1"
    by linarith+
  then show ?thesis
    by (auto simp: round_even_def Let_def)
qed

lemma round_even_le: "t \<le> of_int N \<Longrightarrow> round_even t \<le> N"
proof -
  assume t: "t \<le> of_int N"
  then have fl: "\<lfloor>t\<rfloor> \<le> N" by (simp add: floor_le_iff)
  show ?thesis
  proof (cases "\<lfloor>t\<rfloor> = N")
    case True
    with t have "t - of_int \<lfloor>t\<rfloor> \<le> 0" by simp
    then show ?thesis using True by (simp add: round_even_def Let_def)
  next
    case False
    with fl have "\<lfloor>t\<rfloor> + 1 \<le> N" by simp
    then show ?thesis by (auto simp: round_even_def Let_def)
  qed
qed

lemma round_even_ge: "of_int N \<le> t \<Longrightarrow> N \<le> round_even t"
proof -
  assume "of_int N \<le> t"
  then have "N \<le> \<lfloor>t\<rfloor>" by (simp add: le_floor_iff)
  then show ?thesis by (auto simp: round_even_def Let_def)
qed

lemma binade_le: "x < 2 ^ Suc k \<Longrightarrow> binade n x \<le> int k"
proof (induction n arbitrary: x k)
  case 0
  then show ?case by simp
next
  case (Suc n)
  show ?case
  proof (cases "2 \<le> x")
    case True
    with Suc.prems obtain k' where k: "k = Suc k'"
      by (cases k) auto
    with Suc.prems have "x / 2 < 2 ^ Suc k'" by simp
    then have "binade n (x / 2) \<le> int k'" by (rule Suc.IH)
    with True k show ?thesis by simp
  next
    case False
    show ?thesis
    proof (cases "x < 1")
      case True
      have "(2::real) \<le> 2 ^ Suc k" by simp
      with True have "2 * x < 2 ^ Suc k" by linarith
      then have "binade n (2 * x) \<le> int k" by (rule Suc.IH)
      with True False show ?thesis by simp
    next
      case False
      with \<open>\<not> 2 \<le> x\<close> show ?thesis by simp
    qed
  qed
qed

lemma scaled_round_near:
  fixes q B x :: real
  assumes q: "0 < q" and Nq: "of_int N * q = B" and x: "\<bar>x\<bar> \<le> B"
  shows "\<bar>of_int (round_even (x / q)) * q\<bar> \<le> B"
    and "\<bar>of_int (round_even (x / q)) * q - x\<bar> \<le> q / 2"
proof -
  let ?r = "round_even (x / q)"
  from x have "x \<le> B" and "- B \<le> x" by linarith+
  with q Nq have "x / q \<le> of_int N" and "of_int (- N) \<le> x / q"
    by (simp_all add: field_simps)
  then have "?r \<le> N" and "- N \<le> ?r"
    by (simp_all only: round_even_le round_even_ge)
  then have "real_of_int ?r \<le> of_int N" and "- real_of_int N \<le> of_int ?r"
    by (simp_all flip: of_int_minus)
  with q have "real_of_int ?r * q \<le> of_int N * q" and "- (of_int N * q) \<le> of_int ?r * q"
    by (simp_all flip: mult_minus_left)
  with Nq show "\<bar>of_int ?r * q\<bar> \<le> B" by linarith
  have "of_int ?r * q - x = (of_int ?r - x / q) * q"
    using q by (simp add: field_simps)
  then have "\<bar>of_int ?r * q - x\<bar> = \<bar>of_int ?r - x / q\<bar> * q"
    using q by (simp add: abs_mult)
  also have "\<dots> \<le> 1 / 2 * q"
    using q round_even_near [of "x / q"] by (simp add: mult_right_mono)
  finally show "\<bar>of_int ?r * q - x\<bar> \<le> q / 2" by simp
qed


lemma float_round_near:
  assumes x: "\<bar>x\<bar> \<le> 2 ^ k"
    and emin: "emin \<le> int k"
    and emax: "int k \<le> emax"
    and p: "0 < p"
  shows "\<exists>y. float_round p emin emax x = Num y \<and> \<bar>y\<bar> \<le> 2 ^ k
           \<and> \<bar>y - x\<bar> \<le> 2 powi (int k - int p)"
proof (cases "x = 0")
  case True
  then show ?thesis by simp
next
  case False
  define n where "n = nat (max emax (- emin)) + 1"
  define e where "e = max emin (min emax (binade n \<bar>x\<bar>))"
  define j where "j = e - int p + 1"
  define q :: real where "q = 2 powi j"
  define y where "y = of_int (round_even (x / q)) * q"
  have q: "0 < q" by (simp add: q_def)
  have "(2::real) ^ k < 2 ^ Suc k" by simp
  with x have "\<bar>x\<bar> < 2 ^ Suc k" by linarith
  then have "binade n \<bar>x\<bar> \<le> int k" by (rule binade_le)
  with emin have e: "e \<le> int k" unfolding e_def by linarith
  with p have j: "j \<le> int k" and j': "j - 1 \<le> int k - int p" by (simp_all add: j_def)
  define N :: int where "N = 2 ^ nat (int k - j)"
  have "(2::real) powi (int k - j) * 2 powi j = 2 powi int k"
    by (simp flip: power_int_add)
  moreover have "(2::real) powi (int k - j) = of_int N"
    using j by (simp add: N_def power_int_def)
  ultimately have Nq: "of_int N * q = 2 ^ k" by (simp add: q_def)
  from q Nq x have ybound: "\<bar>y\<bar> \<le> 2 ^ k" and "\<bar>y - x\<bar> \<le> q / 2"
    unfolding y_def by (rule scaled_round_near)+
  moreover have "q / 2 = 2 powi (j - 1)"
    by (simp add: q_def power_int_diff)
  moreover have "(2::real) powi (j - 1) \<le> 2 powi (int k - int p)"
    using j' by (simp add: power_int_increasing)
  ultimately have err: "\<bar>y - x\<bar> \<le> 2 powi (int k - int p)" by linarith
  have "(2::real) ^ k = 2 powi int k" by simp
  also have "\<dots> < 2 powi (emax + 1)"
    using emax by (intro power_int_strict_increasing) simp_all
  finally have "\<bar>y\<bar> < 2 powi (emax + 1)" using ybound by linarith
  then have no: "\<not> 2 powi (emax + 1) \<le> y" "\<not> y \<le> - (2 powi (emax + 1))"
    by linarith+
  have "float_round p emin emax x =
      (if 2 powi (emax + 1) \<le> y then PosInf
       else if y \<le> - (2 powi (emax + 1)) then NegInf else Num y)"
    using False unfolding float_round_def Let_def y_def q_def j_def e_def n_def by simp
  with no have "float_round p emin emax x = Num y" by simp
  with ybound err show ?thesis by blast
qed

lemma to_double_near:
  assumes "\<bar>x\<bar> \<le> 2 ^ k" and "k \<le> 1"
  shows "\<exists>y. to_double x = Num y \<and> \<bar>y\<bar> \<le> 2 ^ k \<and> \<bar>y - x\<bar> \<le> 1 / 2 ^ 52"
proof -
  from assms obtain y where y: "to_double x = Num y" "\<bar>y\<bar> \<le> 2 ^ k"
    "\<bar>y - x\<bar> \<le> 2 powi (int k - int 53)"
    unfolding to_double_def using float_round_near [of x k "- 1022" 1023 53] by auto
  have "(2::real) powi (int k - int 53) \<le> 2 powi (- 52)"
    using assms(2) by (intro power_int_increasing) simp_all
  with y show ?thesis by (auto simp: power_int_minus field_simps)
qed

lemma fround_near:
  assumes "\<bar>x\<bar> \<le> 1"
  shows "\<exists>y. fround x = Num y \<and> \<bar>y\<bar> \<le> 1 \<and> \<bar>y - x\<bar> \<le> 1 / 2 ^ 24"
proof -
  from assms have "\<bar>x\<bar> \<le> 2 ^ 0" by simp
  then obtain y where "fround x = Num y" "\<bar>y\<bar> \<le> 2 ^ 0" "\<bar>y - x\<bar> \<le> 2 powi (int 0 - int 24)"
    unfolding fround_def using float_round_near [of x 0 "- 126" 127 24] by auto
  then show ?thesis by (auto simp: power_int_minus field_simps)
qed


lemma mean_stored:
  assumes a: "\<bar>a\<bar> \<le> 1" and b: "\<bar>b\<bar> \<le> 1"
  shows "\<exists>y. to_float32 (js_half (num_add (Num a) (Num b))) = Num y \<and> \<bar>y\<bar> \<le> 1
           \<and> \<bar>y - (a + b) / 2\<bar> \<le> 1 / 2 ^ 23"
proof -
  from a b have "\<bar>a + b\<bar> \<le> 2 ^ 1" by simp
  then obtain s where s: "to_double (a + b) = Num s" "\<bar>s\<bar> \<le> 2 ^ 1"
    "\<bar>s - (a + b)\<bar> \<le> 1 / 2 ^ 52"
    using to_double_near [of "a + b" 1] by auto
  from s(2) have "\<bar>s / 2\<bar> \<le> 2 ^ 0" by simp
  then obtain h where h: "to_double (s / 2) = Num h" "\<bar>h\<bar> \<le> 2 ^ 0"
    "\<bar>h - s / 2\<bar> \<le> 1 / 2 ^ 52"
    using to_double_near [of "s / 2" 0] by auto
  from h(2) have "\<bar>h\<bar> \<le> 1" by simp
  then obtain y where y: "fround h = Num y" "\<bar>y\<bar> \<le> 1" "\<bar>y - h\<bar> \<le> 1 / 2 ^ 24"
    using fround_near [of h] by auto
  from s(1) h(1) y(1) have "to_float32 (js_half (num_add (Num a) (Num b))) = Num y"
    by simp
  moreover have "\<bar>y - (a + b) / 2\<bar> \<le> 1 / 2 ^ 23"
  proof -
    define u v w where "u = y - h" and "v = h - s / 2" and "w = s - (a + b)"
    from s(3) h(3) y(3) have bounds: "\<bar>u\<bar> \<le> 1 / 16777216"
      "\<bar>v\<bar> \<le> 1 / 4503599627370496" "\<bar>w\<bar> \<le> 1 / 4503599627370496"
      by (simp_all add: u_def v_def w_def)
    have "\<bar>u + v + w / 2\<bar> \<le> \<bar>u\<bar> + \<bar>v\<bar> + \<bar>w\<bar>"
      by linarith
    also have "\<dots> \<le> 1 / 16777216 + 1 / 4503599627370496 + 1 / 4503599627370496"
      using bounds by (intro add_mono)
    also have "\<dots> \<le> 1 / 8388608" by simp
    finally have "\<bar>u + v + w / 2\<bar> \<le> 1 / 8388608" .
    moreover have "y - (a + b) / 2 = u + v + w / 2"
      by (simp add: u_def v_def w_def field_simps)
    ultimately show ?thesis by simp
  qed
  ultimately show ?thesis using y(2) by blast
qed

section \<open>Properties of the downmixer\<close>

lemma length_monoChannel: "length (monoChannel c0 c1) = length c0"
  by (simp add: monoChannel_def)

lemma nth_monoChannel:
  "i < length c0 \<Longrightarrow>
   monoChannel c0 c1 ! i = to_float32 (js_half (js_add (js_index c0 i) (js_index c1 i)))"
  by (simp add: monoChannel_def)

lemma monoChannel_silence:
  "monoChannel [Num 1, Num (- 1)] [Num (- 1), Num 1] = [Num 0, Num 0]"
  by (simp add: monoChannel_def js_index_def js_add_def upt_rec to_double_def fround_def)

lemma convertToMonoBuffer_mono:
  "decode buf = Inr w \<Longrightarrow> length (channelData w) = 1 \<Longrightarrow>
   convertToMonoBuffer decode encode buf = Inr buf"
  by (auto simp: convertToMonoBuffer_def split: list.splits)

lemma convertToMonoBuffer_two_or_more:
  "decode buf = Inr w \<Longrightarrow> channelData w = c0 # c1 # others \<Longrightarrow>
   convertToMonoBuffer decode encode buf =
     encode \<lparr>sampleRate = sampleRate w, channelData = [monoChannel c0 c1]\<rparr>"
  by (simp add: convertToMonoBuffer_def)

lemma convertToMono_mono:
  "files fs inputFile = Some buf \<Longrightarrow> decode buf = Inr w \<Longrightarrow> length (channelData w) = 1 \<Longrightarrow>
   convertToMono decode encode inputFile outputFile fs =
     (case writeFileSync fs outputFile buf of
        Inl e \<Rightarrow> (Inl e, fs)
      | Inr fs1 \<Rightarrow> (Inr (sampleRate w), fs1))"
  by (auto simp: convertToMono_def readFileSync_def split: list.splits)

lemma convertToMono_two_or_more:
  "files fs inputFile = Some buf \<Longrightarrow> decode buf = Inr w \<Longrightarrow>
   channelData w = c0 # c1 # others \<Longrightarrow>
   convertToMono decode encode inputFile outputFile fs =
     (case encode \<lparr>sampleRate = sampleRate w, channelData = [monoChannel c0 c1]\<rparr> of
        Inl e \<Rightarrow> (Inl e, fs)
      | Inr encoded \<Rightarrow>
          (case writeFileSync fs outputFile encoded of
             Inl e \<Rightarrow> (Inl e, fs)
           | Inr fs1 \<Rightarrow> (Inr (sampleRate w), fs1)))"
  by (simp add: convertToMono_def readFileSync_def)

lemma in_range_mean:
  "in_range x \<Longrightarrow> in_range y \<Longrightarrow>
   in_range (to_float32 (js_half (js_add (Some x) (Some y))))"
proof -
  assume "in_range x" and "in_range y"
  then obtain a b where x: "x = Num a" "\<bar>a\<bar> \<le> 1" and y: "y = Num b" "\<bar>b\<bar> \<le> 1"
    by (cases x; cases y) (auto simp: in_range_def abs_le_iff)
  from mean_stored [OF x(2) y(2)] x(1) y(1) show ?thesis
    by (auto simp: js_add_def in_range_def abs_le_iff)
qed

section \<open>Stereo input: the mean of the two channels\<close>




section \<open>Mono input: the identity\<close>

text \<open>
  C3: a buffer that decodes to exactly one channel is returned as it is, the same bytes,
  whatever the encoder is (it is not called); the file-based version writes the bytes it
  read to the output file.
\<close>

theorem mono_input_returned_unchanged:
  assumes "decode buf = Inr w"
    and "length (channelData w) = 1"
  shows "convertToMonoBuffer decode encode buf = Inr buf
       \<and> (files fs inputFile = Some buf \<longrightarrow> writable fs outputFile \<longrightarrow>
            convertToMono decode encode inputFile outputFile fs =
              (Inr (sampleRate w), fs\<lparr>files := (files fs)(outputFile \<mapsto> buf)\<rparr>))"
  using assms
  by (simp add: convertToMonoBuffer_mono convertToMono_mono writeFileSync_def)

theorem mono_input_returned_unchanged_witness:
  "table_decode [1] = Inr mono_wave
   \<and> length (channelData mono_wave) = 1
   \<and> convertToMonoBuffer table_decode table_encode [1] = Inr [1]
   \<and> convertToMono table_decode table_encode ''uploads/in.wav'' ''uploads/out.wav'' sample_disk =
       (Inr 16000, sample_disk\<lparr>files := (files sample_disk)(''uploads/out.wav'' \<mapsto> [1])\<rparr>)"
proof -
  have d: "table_decode [1] = Inr mono_wave"
    by (simp add: table_decode_def)
  have c: "length (channelData mono_wave) = 1"
    by (simp add: mono_wave_def)
  have f: "files sample_disk ''uploads/in.wav'' = Some [1]"
    by (simp add: sample_disk_def)
  have w: "writable sample_disk ''uploads/out.wav''"
    by (simp add: sample_disk_def)
  have r: "sampleRate mono_wave = 16000"
    by (simp add: mono_wave_def)
  from mono_input_returned_unchanged [of table_decode "[1]" mono_wave table_encode
      sample_disk "''uploads/in.wav''" "''uploads/out.wav''", OF d c] d c f w r
  show ?thesis by simp
qed

text \<open>
  C7: on a buffer that is already mono, running the downmixer on its own result gives
  the same result as running it once.
\<close>

theorem downmix_idempotent_on_mono:
  assumes "decode buf = Inr w"
    and "length (channelData w) = 1"
  shows "(case convertToMonoBuffer decode encode buf of
            Inl e \<Rightarrow> Inl e
          | Inr once \<Rightarrow> convertToMonoBuffer decode encode once)
         = convertToMonoBuffer decode encode buf"
  using assms by (simp add: convertToMonoBuffer_mono)

theorem downmix_idempotent_on_mono_witness:
  "table_decode [1] = Inr mono_wave
   \<and> length (channelData mono_wave) = 1
   \<and> (case convertToMonoBuffer table_decode table_encode [1] of
         Inl e \<Rightarrow> Inl e
       | Inr once \<Rightarrow> convertToMonoBuffer table_decode table_encode once)
      = convertToMonoBuffer table_decode table_encode [1]
   \<and> convertToMonoBuffer table_decode table_encode [1] = Inr [1]"
proof -
  have d: "table_decode [1] = Inr mono_wave"
    by (simp add: table_decode_def)
  have c: "length (channelData mono_wave) = 1"
    by (simp add: mono_wave_def)
  have "convertToMonoBuffer table_decode table_encode [1] = Inr [1]"
    using d c by (rule convertToMonoBuffer_mono)
  with downmix_idempotent_on_mono [of table_decode "[1]" mono_wave table_encode, OF d c] d c
  show ?thesis by simp
qed

section \<open>The range of the downmixed samples\<close>

text \<open>
  C8: when the samples of both channels lie between \<open>-1\<close> and \<open>1\<close>, so does every
  sample of the channel handed to the encoder: nothing has to be clamped before encoding.
\<close>

theorem downmix_stays_in_range:
  assumes "decode buf = Inr w"
    and "channelData w = [l, r]"
    and "length l = length r"
    and "\<forall>x \<in> set l. in_range x"
    and "\<forall>y \<in> set r. in_range y"
  shows "\<exists>m. convertToMonoBuffer decode encode buf =
               encode \<lparr>sampleRate = sampleRate w, channelData = [m]\<rparr>
           \<and> (\<forall>z \<in> set m. in_range z)"
proof (intro exI conjI ballI)
  show "convertToMonoBuffer decode encode buf =
          encode \<lparr>sampleRate = sampleRate w, channelData = [monoChannel l r]\<rparr>"
    using assms(1,2) by (rule convertToMonoBuffer_two_or_more)
next
  fix z
  assume "z \<in> set (monoChannel l r)"
  then obtain i where i: "i < length l" and z: "z = monoChannel l r ! i"
    by (auto simp: in_set_conv_nth length_monoChannel)
  from i assms(3) have "js_index l i = Some (l ! i)" and "js_index r i = Some (r ! i)"
    by (simp_all add: js_index_def)
  moreover from i assms(3,4,5) have "in_range (l ! i)" and "in_range (r ! i)"
    by simp_all
  ultimately show "in_range z"
    using i z by (simp add: nth_monoChannel in_range_mean)
qed

theorem downmix_stays_in_range_witness:
  "table_decode [2] = Inr stereo_wave
   \<and> channelData stereo_wave = [[Num 1, Num (- 1)], [Num (- 1), Num 1]]
   \<and> in_range (Num 1) \<and> in_range (Num (- 1))
   \<and> convertToMonoBuffer table_decode table_encode [2] =
       table_encode \<lparr>sampleRate = 16000, channelData = [[Num 0, Num 0]]\<rparr>
   \<and> in_range (Num 0)"
proof -
  have d: "table_decode [2] = Inr stereo_wave"
    by (simp add: table_decode_def)
  have c: "channelData stereo_wave = [[Num 1, Num (- 1)], [Num (- 1), Num 1]]"
    by (simp add: stereo_wave_def)
  have n: "length [Num 1, Num (- 1)] = length [Num (- 1), Num 1]"
    by simp
  have a: "\<forall>x \<in> set [Num 1, Num (- 1)]. in_range x"
    by (simp add: in_range_def)
  have b: "\<forall>y \<in> set [Num (- 1), Num 1]. in_range y"
    by (simp add: in_range_def)
  from downmix_stays_in_range [of table_decode "[2]" stereo_wave "[Num 1, Num (- 1)]"
      "[Num (- 1), Num 1]" table_encode, OF d c n a b] d c
  show ?thesis
    by (simp add: in_range_def stereo_wave_def convertToMonoBuffer_def monoChannel_silence)
qed


section \<open>Other channel counts\<close>

text \<open>
  A buffer of three channels is not rejected: the downmixer returns the encoding of the
  mean of its first two channels (\<open>[1]\<close> is the buffer of the waveform \<open>[0, 0]\<close>), and
  the third channel, \<open>[1, 1]\<close>, has no part in it.
\<close>

theorem three_channels_not_rejected:
  "table_decode [3] = Inr surround_wave
   \<and> length (channelData surround_wave) = 3
   \<and> convertToMonoBuffer table_decode table_encode [3] = Inr [1]
   \<and> table_decode [1] = Inr \<lparr>sampleRate = 16000, channelData = [[Num 0, Num 0]]\<rparr>"
  by (simp add: table_decode_def table_encode_def surround_wave_def mono_wave_def
      convertToMonoBuffer_def monoChannel_silence)

text \<open>
  C2, as the code has it: with three or more channels the downmixer does not fail; it
  hands the encoder the mean of the first two channels at the input's sample rate and
  ignores the others, in the buffer version and in the file-based one. With no channel
  it throws a \<open>TypeError\<close>. No error names the channel count.
\<close>

theorem other_channel_counts:
  assumes "decode buf = Inr w"
  shows "(channelData w = [] \<longrightarrow>
            convertToMonoBuffer decode encode buf =
              Inl (TypeError ''Cannot read properties of undefined (reading map)''))
       \<and> (\<forall>c0 c1 c2 others. channelData w = c0 # c1 # c2 # others \<longrightarrow>
            convertToMonoBuffer decode encode buf =
              encode \<lparr>sampleRate = sampleRate w, channelData = [monoChannel c0 c1]\<rparr>
            \<and> (\<forall>fs inputFile outputFile. files fs inputFile = Some buf \<longrightarrow>
                 convertToMono decode encode inputFile outputFile fs =
                   (case encode \<lparr>sampleRate = sampleRate w,
                                  channelData = [monoChannel c0 c1]\<rparr> of
                      Inl e \<Rightarrow> (Inl e, fs)
                    | Inr encoded \<Rightarrow>
                        (case writeFileSync fs outputFile encoded of
                           Inl e \<Rightarrow> (Inl e, fs)
                         | Inr fs1 \<Rightarrow> (Inr (sampleRate w), fs1)))))"
  using assms
  by (simp add: convertToMonoBuffer_def convertToMono_two_or_more)

theorem other_channel_counts_witness:
  "table_decode [4] = Inr empty_wave \<and> channelData empty_wave = []
   \<and> convertToMonoBuffer table_decode table_encode [4] =
       Inl (TypeError ''Cannot read properties of undefined (reading map)'')
   \<and> table_decode [3] = Inr surround_wave
   \<and> channelData surround_wave = [[Num 1, Num (- 1)], [Num (- 1), Num 1], [Num 1, Num 1]]
   \<and> convertToMonoBuffer table_decode table_encode [3] =
       table_encode \<lparr>sampleRate = 16000, channelData = [[Num 0, Num 0]]\<rparr>"
proof -
  have d4: "table_decode [4] = Inr empty_wave"
    and d3: "table_decode [3] = Inr surround_wave"
    by (simp_all add: table_decode_def)
  have c4: "channelData empty_wave = []"
    by (simp add: empty_wave_def)
  have c3: "channelData surround_wave =
      [Num 1, Num (- 1)] # [Num (- 1), Num 1] # [Num 1, Num 1] # []"
    by (simp add: surround_wave_def)
  have m: "monoChannel [Num 1, Num (- 1)] [Num (- 1), Num 1] = [Num 0, Num 0]"
    by (rule monoChannel_silence)
  have r: "sampleRate surround_wave = 16000"
    by (simp add: surround_wave_def)
  from other_channel_counts [of table_decode "[4]" empty_wave table_encode, OF d4] c4
  have "convertToMonoBuffer table_decode table_encode [4] =
      Inl (TypeError ''Cannot read properties of undefined (reading map)'')"
    by simp
  moreover
  from other_channel_counts [of table_decode "[3]" surround_wave table_encode, OF d3] c3
  have "convertToMonoBuffer table_decode table_encode [3] =
      table_encode \<lparr>sampleRate = sampleRate surround_wave,
        channelData = [monoChannel [Num 1, Num (- 1)] [Num (- 1), Num 1]]\<rparr>"
    by blast
  ultimately show ?thesis
    using d4 d3 c4 c3 m r by simp
qed

section \<open>The sample rate\<close>

lemma table_codec:
  "table_encode v = Inr b \<Longrightarrow> getSampleRateFromWavBuffer table_decode b = Inr (sampleRate v)"
  by (auto simp: table_encode_def table_decode_def getSampleRateFromWavBuffer_def
      split: if_splits)

text \<open>
  C6: for an input of one or two channels, the sample rate read back from the output
  buffer is the sample rate of the input, provided the decoder reads back the sample rate
  the encoder was given; the file-based version returns the input's sample rate, and the
  file it wrote has that sample rate too.
\<close>

theorem downmix_keeps_sampleRate:
  assumes codec: "\<And>v b. encode v = Inr b \<Longrightarrow>
                     getSampleRateFromWavBuffer decode b = Inr (sampleRate v)"
    and dec: "decode buf = Inr w"
    and chans: "length (channelData w) = 1 \<or> length (channelData w) = 2"
  shows "(\<forall>out. convertToMonoBuffer decode encode buf = Inr out \<longrightarrow>
            getSampleRateFromWavBuffer decode out = Inr (sampleRate w))
       \<and> (\<forall>fs inputFile outputFile rate fs'.
            files fs inputFile = Some buf \<longrightarrow>
            convertToMono decode encode inputFile outputFile fs = (Inr rate, fs') \<longrightarrow>
            rate = sampleRate w
            \<and> (\<exists>out. files fs' outputFile = Some out
                  \<and> getSampleRateFromWavBuffer decode out = Inr (sampleRate w)))"
proof -
  from chans consider (one) c where "channelData w = [c]"
    | (two) c0 c1 where "channelData w = [c0, c1]"
    by (auto simp: length_Suc_conv numeral_2_eq_2)
  then show ?thesis
  proof cases
    case one
    then show ?thesis
      using dec
      by (auto simp: convertToMonoBuffer_def convertToMono_def readFileSync_def
          writeFileSync_def getSampleRateFromWavBuffer_def split: sum.splits if_splits)
  next
    case two
    then show ?thesis
      using dec codec
      by (auto simp: convertToMonoBuffer_def convertToMono_def readFileSync_def
          writeFileSync_def split: sum.splits if_splits)
  qed
qed

theorem downmix_keeps_sampleRate_witness:
  "table_decode [2] = Inr stereo_wave
   \<and> length (channelData stereo_wave) = 2
   \<and> sampleRate stereo_wave = 16000
   \<and> convertToMonoBuffer table_decode table_encode [2] = Inr [1]
   \<and> getSampleRateFromWavBuffer table_decode [1] = Inr 16000
   \<and> files sample_disk ''uploads/in.wav'' = Some [1]
   \<and> table_decode [1] = Inr mono_wave
   \<and> length (channelData mono_wave) = 1
   \<and> fst (convertToMono table_decode table_encode ''uploads/in.wav'' ''uploads/out.wav''
            sample_disk) = Inr (sampleRate mono_wave)"
proof -
  have d: "table_decode [2] = Inr stereo_wave"
    and d1: "table_decode [1] = Inr mono_wave"
    by (simp_all add: table_decode_def)
  have c: "length (channelData stereo_wave) = 1 \<or> length (channelData stereo_wave) = 2"
    and c1: "length (channelData mono_wave) = 1 \<or> length (channelData mono_wave) = 2"
    by (simp_all add: stereo_wave_def mono_wave_def)
  have o: "convertToMonoBuffer table_decode table_encode [2] = Inr [1]"
    by (simp add: table_decode_def table_encode_def stereo_wave_def mono_wave_def
        convertToMonoBuffer_def monoChannel_silence)
  have f: "files sample_disk ''uploads/in.wav'' = Some [1]"
    by (simp add: sample_disk_def)
  obtain rate fs' where run: "convertToMono table_decode table_encode ''uploads/in.wav''
      ''uploads/out.wav'' sample_disk = (Inr rate, fs')"
    by (simp add: convertToMono_def readFileSync_def writeFileSync_def sample_disk_def
        table_decode_def mono_wave_def)
  from downmix_keeps_sampleRate [of table_encode table_decode "[2]" stereo_wave,
      OF table_codec d c] o
  have "getSampleRateFromWavBuffer table_decode [1] = Inr (sampleRate stereo_wave)"
    by blast
  moreover
  from downmix_keeps_sampleRate [of table_encode table_decode "[1]" mono_wave,
      OF table_codec d1 c1] f run
  have "rate = sampleRate mono_wave"
    by blast
  ultimately show ?thesis
    using d d1 o f run by (simp add: stereo_wave_def mono_wave_def)
qed

section \<open>The upload handler\<close>

lemma status_required_fields: "status required_fields = 400"
  by (simp add: required_fields_def)

lemma status_failed_to_create: "status failed_to_create = 500"
  by (simp add: failed_to_create_def)

lemma send_recognize_frame:
  "send_recognize E r s = (x, s1) \<Longrightarrow>
   db s1 = db s \<and> bucket s1 = bucket s \<and> disk s1 = disk s"
  by (auto simp: send_recognize_def Let_def split: sum.splits)

lemma transcribeAudioBuffer_frame:
  "transcribeAudioBuffer E b s = (x, s1) \<Longrightarrow>
   db s1 = db s \<and> bucket s1 = bucket s \<and> disk s1 = disk s"
  by (auto simp: transcribeAudioBuffer_def split: sum.splits dest: send_recognize_frame)

lemma transcribeAudio_frame:
  "transcribeAudio E p rate s = (x, s1) \<Longrightarrow>
   db s1 = db s \<and> bucket s1 = bucket s \<and> disk s1 = disk s"
  by (auto simp: transcribeAudio_def split: sum.splits dest: send_recognize_frame)

lemma saveTranscriptionToCloud_frame:
  "saveTranscriptionToCloud E t n s = (x, s2) \<Longrightarrow>
   db s2 = db s \<and> recognized s2 = recognized s \<and> disk s2 = disk s"
  by (auto simp: saveTranscriptionToCloud_def Let_def split: option.splits)

lemma saveTranscriptionToCloud_failure:
  "saveTranscriptionToCloud E t n s = (Inl e, s2) \<Longrightarrow> s2 = s"
  by (auto simp: saveTranscriptionToCloud_def Let_def split: option.splits)

lemma create_row_failure:
  "create_row E v s = (res, s') \<Longrightarrow> status res \<noteq> 201 \<Longrightarrow> s' = s \<and> res = failed_to_create"
  by (auto simp: create_row_def split: sum.splits)

lemma get_speechtotext_db:
  "db s' = db s \<Longrightarrow> get_speechtotext E em s' = get_speechtotext E em s"
  by (simp add: get_speechtotext_def)

lemma process_upload_db:
  assumes "process_upload E em ti f s = (res, s')" and "status res \<noteq> 201"
  shows "db s' = db s"
  using assms
  by (auto simp: process_upload_def split: sum.splits prod.splits
      dest!: transcribeAudioBuffer_frame saveTranscriptionToCloud_frame create_row_failure)

lemma process_upload_files_db:
  assumes "process_upload_files E em f s = (res, s')" and "status res \<noteq> 201"
  shows "db s' = db s"
  using assms
  by (auto simp: process_upload_files_def Let_def split: sum.splits prod.splits
      dest!: transcribeAudio_frame saveTranscriptionToCloud_frame create_row_failure)

lemma post_speechtotext_cases:
  "post_speechtotext E req s = (failed_to_create, s)
   \<or> post_speechtotext E req s = (required_fields, s)
   \<or> (\<exists>b em ti f. req_body req = Some b \<and> email b = Some em \<and> title b = Some ti
         \<and> req_file req = Some f
         \<and> post_speechtotext E req s = process_upload E em ti f s)"
  by (auto simp: post_speechtotext_def split: option.splits)

lemma post_speechtotext_files_cases:
  "post_speechtotext_files E req s = (failed_to_create, s)
   \<or> post_speechtotext_files E req s = (required_fields, s)
   \<or> (\<exists>b em ti f. req_body req = Some b \<and> email b = Some em \<and> title b = Some ti
         \<and> req_file req = Some f
         \<and> post_speechtotext_files E req s = process_upload_files E em f s)"
  by (auto simp: post_speechtotext_files_def split: option.splits)

lemma post_speechtotext_db:
  assumes "post_speechtotext E req s = (res, s')" and "status res \<noteq> 201"
  shows "db s' = db s"
  using assms post_speechtotext_cases [of E req s]
  by (auto dest: process_upload_db [OF sym])

lemma post_speechtotext_files_db:
  assumes "post_speechtotext_files E req s = (res, s')" and "status res \<noteq> 201"
  shows "db s' = db s"
  using assms post_speechtotext_files_cases [of E req s]
  by (auto dest: process_upload_files_db [OF sym])

lemma post_speechtotext_incomplete:
  "incomplete req \<Longrightarrow> post_speechtotext E req s = (required_fields, s)"
  by (auto simp: incomplete_def post_speechtotext_def split: option.splits)

lemma post_speechtotext_files_incomplete:
  "incomplete req \<Longrightarrow> post_speechtotext_files E req s = (required_fields, s)"
  by (auto simp: incomplete_def post_speechtotext_files_def split: option.splits)

lemma post_speechtotext_no_body:
  "req_body req = None \<Longrightarrow> post_speechtotext E req s = (failed_to_create, s)"
  by (simp add: post_speechtotext_def)

lemma post_speechtotext_files_no_body:
  "req_body req = None \<Longrightarrow> post_speechtotext_files E req s = (failed_to_create, s)"
  by (simp add: post_speechtotext_files_def)

lemma upload_single_lacking:
  "lacking r \<Longrightarrow> upload_single r = Inr req \<Longrightarrow> req_body req = None \<or> incomplete req"
  by (auto simp: lacking_def upload_single_def incomplete_def
      split: http_request.splits option.splits if_splits)

lemma upload_single_files_lacking:
  "lacking r \<Longrightarrow> upload_single_files E r fs = (Inr req, fs') \<Longrightarrow>
   req_body req = None \<or> incomplete req"
  by (auto simp: lacking_def upload_single_files_def incomplete_def
      split: http_request.splits option.splits if_splits sum.splits)

lemma post_route_lacking:
  assumes "lacking r"
  shows "(status (fst (post_route E r s)) = 400 \<or> status (fst (post_route E r s)) = 500)
       \<and> snd (post_route E r s) = s"
proof (cases "upload_single r")
  case (Inl e)
  then show ?thesis by (simp add: post_route_def)
next
  case (Inr req)
  with assms have "req_body req = None \<or> incomplete req"
    by (simp add: upload_single_lacking)
  with Inr show ?thesis
    by (auto simp: post_route_def post_speechtotext_no_body post_speechtotext_incomplete
        status_required_fields status_failed_to_create)
qed

lemma post_route_files_lacking:
  assumes "lacking r"
  shows "(status (fst (post_route_files E r s)) = 400
          \<or> status (fst (post_route_files E r s)) = 500)
       \<and> db (snd (post_route_files E r s)) = db s
       \<and> bucket (snd (post_route_files E r s)) = bucket s
       \<and> recognized (snd (post_route_files E r s)) = recognized s"
proof (cases "upload_single_files E r (disk s)")
  case (Pair x fs)
  show ?thesis
  proof (cases x)
    case (Inl e)
    with Pair show ?thesis by (simp add: post_route_files_def)
  next
    case (Inr req)
    with Pair assms have "req_body req = None \<or> incomplete req"
      by (simp add: upload_single_files_lacking)
    with Pair Inr show ?thesis
      by (auto simp: post_route_files_def post_speechtotext_files_no_body
          post_speechtotext_files_incomplete status_required_fields status_failed_to_create)
  qed
qed

text \<open>
  A request with no body at all, and a multipart form with no email whose file is a video:
  each lacks an item, and each is answered \<open>500\<close>, the first by the handler's \<open>catch\<close>,
  the second by the framework's error handler, before the handler runs.
\<close>

theorem missing_item_answered_500:
  "lacking (Plain None)
   \<and> post_route sample_env (Plain None) sample_server =
       (\<lparr>status = 500, body = FailureBody ''Failed to create transcription''\<rparr>, sample_server)
   \<and> lacking (Multipart \<lparr>email = None, title = Some ''memo''\<rparr>
        (Some \<lparr>mimetype = ''video/mp4'', file_bytes = [2]\<rparr>))
   \<and> post_route sample_env
        (Multipart \<lparr>email = None, title = Some ''memo''\<rparr>
           (Some \<lparr>mimetype = ''video/mp4'', file_bytes = [2]\<rparr>))
        sample_server =
       (\<lparr>status = 500,
         body = UnhandledError
           (Error ''Format file tidak didukung. Hanya WAV, OGG, MP3 diperbolehkan.'')\<rparr>,
        sample_server)"
  by (simp add: lacking_def post_route_def upload_single_def post_speechtotext_def
      failed_to_create_def fileFilter_def allowedMimes_def)

text \<open>
  C10, as the code has it: when the request reaches the handler with an object as its body
  and the email, the title or the uploaded file is missing (or a field is empty), both
  versions of the handler answer \<open>400\<close> and leave the server as it was: no row, no object
  in the bucket, no request to the recognition service, no file written by the handler.
  When \<open>req.body\<close> is undefined the handler answers \<open>500\<close>, the server again unchanged.
  A request whose file the upload middleware refuses (a MIME type that is not allowed, more
  than 10 MB) does not reach the handler and is answered \<open>500\<close> by the framework. So a
  request that lacks an item is answered \<open>400\<close> or \<open>500\<close>, and in either case nothing is
  normalized, downmixed, transcribed or stored in the table or the bucket; with disk
  storage the middleware may have written the upload itself to disk.
\<close>

theorem incomplete_request_rejected:
  "(incomplete req \<longrightarrow> post_speechtotext E req s = (required_fields, s))
   \<and> (incomplete req' \<longrightarrow> post_speechtotext_files E req' s = (required_fields, s))
   \<and> (req_body req = None \<longrightarrow> post_speechtotext E req s = (failed_to_create, s))
   \<and> (req_body req' = None \<longrightarrow> post_speechtotext_files E req' s = (failed_to_create, s))
   \<and> (\<forall>e. upload_single r = Inl e \<longrightarrow>
         post_route E r s = (\<lparr>status = 500, body = UnhandledError e\<rparr>, s))
   \<and> (\<forall>e fs. upload_single_files E r (disk s) = (Inl e, fs) \<longrightarrow>
         post_route_files E r s = (\<lparr>status = 500, body = UnhandledError e\<rparr>, s))
   \<and> (lacking r \<longrightarrow>
         (status (fst (post_route E r s)) = 400 \<or> status (fst (post_route E r s)) = 500)
         \<and> snd (post_route E r s) = s)
   \<and> (lacking r \<longrightarrow>
         (status (fst (post_route_files E r s)) = 400
          \<or> status (fst (post_route_files E r s)) = 500)
         \<and> db (snd (post_route_files E r s)) = db s
         \<and> bucket (snd (post_route_files E r s)) = bucket s
         \<and> recognized (snd (post_route_files E r s)) = recognized s)
   \<and> status required_fields = 400 \<and> status failed_to_create = 500"
proof -
  have "post_route_files E r s = (\<lparr>status = 500, body = UnhandledError e\<rparr>, s)"
    if "upload_single_files E r (disk s) = (Inl e, fs)" for e fs
  proof -
    from that have "fs = disk s"
      by (auto simp: upload_single_files_def
          split: http_request.splits option.splits if_splits sum.splits)
    with that show ?thesis by (simp add: post_route_files_def)
  qed
  moreover have "post_route E r s = (\<lparr>status = 500, body = UnhandledError e\<rparr>, s)"
    if "upload_single r = Inl e" for e
    using that by (simp add: post_route_def)
  ultimately show ?thesis
    using post_route_lacking [of r E s] post_route_files_lacking [of r E s]
    by (simp add: post_speechtotext_incomplete post_speechtotext_files_incomplete
        post_speechtotext_no_body post_speechtotext_files_no_body
        status_required_fields status_failed_to_create)
qed

theorem incomplete_request_rejected_witness:
  "incomplete \<lparr>req_body = Some \<lparr>email = Some ''a@b.c'', title = None\<rparr>,
      req_file = Some \<lparr>buffer = [2]\<rparr>\<rparr>
   \<and> post_speechtotext sample_env
        \<lparr>req_body = Some \<lparr>email = Some ''a@b.c'', title = None\<rparr>,
         req_file = Some \<lparr>buffer = [2]\<rparr>\<rparr>
        sample_server
      = (\<lparr>status = 400, body = ErrorBody ''Email, title, and audio file are required''\<rparr>,
         sample_server)
   \<and> incomplete \<lparr>req_body = Some \<lparr>email = None, title = Some ''memo''\<rparr>,
        req_file = Some \<lparr>filename = ''in.wav'', path = ''uploads/in.wav''\<rparr>\<rparr>
   \<and> post_speechtotext_files sample_env
        \<lparr>req_body = Some \<lparr>email = None, title = Some ''memo''\<rparr>,
         req_file = Some \<lparr>filename = ''in.wav'', path = ''uploads/in.wav''\<rparr>\<rparr>
        sample_server
      = (\<lparr>status = 400, body = ErrorBody ''Email, title, and audio file are required''\<rparr>,
         sample_server)
   \<and> post_speechtotext sample_env \<lparr>req_body = None, req_file = None\<rparr> sample_server
      = (\<lparr>status = 500, body = FailureBody ''Failed to create transcription''\<rparr>,
         sample_server)
   \<and> lacking (Multipart \<lparr>email = None, title = Some ''memo''\<rparr>
        (Some \<lparr>mimetype = ''video/mp4'', file_bytes = [2]\<rparr>))
   \<and> upload_single (Multipart \<lparr>email = None, title = Some ''memo''\<rparr>
        (Some \<lparr>mimetype = ''video/mp4'', file_bytes = [2]\<rparr>))
      = Inl (Error ''Format file tidak didukung. Hanya WAV, OGG, MP3 diperbolehkan.'')
   \<and> post_route sample_env
        (Multipart \<lparr>email = None, title = Some ''memo''\<rparr>
           (Some \<lparr>mimetype = ''video/mp4'', file_bytes = [2]\<rparr>))
        sample_server
      = (\<lparr>status = 500,
          body = UnhandledError
            (Error ''Format file tidak didukung. Hanya WAV, OGG, MP3 diperbolehkan.'')\<rparr>,
         sample_server)"
proof -
  let ?untitled = "\<lparr>req_body = Some \<lparr>email = Some ''a@b.c'', title = None\<rparr>,
      req_file = Some \<lparr>buffer = [2]\<rparr>\<rparr>"
  let ?unsigned = "\<lparr>req_body = Some \<lparr>email = None, title = Some ''memo''\<rparr>,
      req_file = Some \<lparr>filename = ''in.wav'', path = ''uploads/in.wav''\<rparr>\<rparr>"
  let ?video = "Multipart \<lparr>email = None, title = Some ''memo''\<rparr>
      (Some \<lparr>mimetype = ''video/mp4'', file_bytes = [2]\<rparr>)"
  let ?bare = "\<lparr>req_body = None, req_file = None\<rparr> :: memory_upload request"
  have a: "incomplete ?untitled" and b: "incomplete ?unsigned"
    by (simp_all add: incomplete_def)
  have l: "lacking ?video"
    by (simp add: lacking_def)
  have u: "upload_single ?video =
      Inl (Error ''Format file tidak didukung. Hanya WAV, OGG, MP3 diperbolehkan.'')"
    by (simp add: upload_single_def fileFilter_def allowedMimes_def)
  have n: "req_body ?bare = None"
    by simp
  from incomplete_request_rejected [of ?untitled sample_env sample_server ?unsigned ?video]
    incomplete_request_rejected [of ?bare sample_env sample_server ?unsigned ?video]
    a b l u n
  show ?thesis by (simp add: required_fields_def failed_to_create_def)
qed

lemma process_upload_downmix_failure:
  "convertToMonoBuffer (wav_decode E) (wav_encode E) (buffer f) = Inl e \<Longrightarrow>
   process_upload E em ti f s = (failed_to_create, s)"
  by (simp add: process_upload_def)

lemma process_upload_transcription_failure:
  "convertToMonoBuffer (wav_decode E) (wav_encode E) (buffer f) = Inr mixed \<Longrightarrow>
   transcribeAudioBuffer E mixed s = (Inl e, s1) \<Longrightarrow>
   process_upload E em ti f s = (failed_to_create, s1)"
  by (simp add: process_upload_def)

lemma process_upload_storage_failure:
  "convertToMonoBuffer (wav_decode E) (wav_encode E) (buffer f) = Inr mixed \<Longrightarrow>
   transcribeAudioBuffer E mixed s = (Inr t, s1) \<Longrightarrow>
   saveTranscriptionToCloud E t ti s1 = (Inl e, s2) \<Longrightarrow>
   process_upload E em ti f s = (failed_to_create, s1)"
  by (auto simp: process_upload_def dest: saveTranscriptionToCloud_failure)

lemma process_upload_files_normalizer_failure:
  "convertAudioToWav E (path f) (temp_path E f) (disk s) = (Inl e, fs1) \<Longrightarrow>
   process_upload_files E em f s = (failed_to_create, s\<lparr>disk := fs1\<rparr>)"
  by (simp add: process_upload_files_def Let_def)

lemma process_upload_files_downmix_failure:
  "convertAudioToWav E (path f) (temp_path E f) (disk s) = (Inr c, fs1) \<Longrightarrow>
   convertToMono (wav_decode E) (wav_encode E) (temp_path E f) (mono_path E f) fs1
     = (Inl e, fs2) \<Longrightarrow>
   process_upload_files E em f s = (failed_to_create, s\<lparr>disk := fs2\<rparr>)"
  by (simp add: process_upload_files_def Let_def)

lemma process_upload_files_transcription_failure:
  "convertAudioToWav E (path f) (temp_path E f) (disk s) = (Inr c, fs1) \<Longrightarrow>
   convertToMono (wav_decode E) (wav_encode E) (temp_path E f) (mono_path E f) fs1
     = (Inr rate, fs2) \<Longrightarrow>
   transcribeAudio E (mono_path E f) rate (s\<lparr>disk := fs2\<rparr>) = (Inl e, s1) \<Longrightarrow>
   process_upload_files E em f s = (failed_to_create, s1)"
  by (simp add: process_upload_files_def Let_def)

lemma process_upload_files_storage_failure:
  "convertAudioToWav E (path f) (temp_path E f) (disk s) = (Inr c, fs1) \<Longrightarrow>
   convertToMono (wav_decode E) (wav_encode E) (temp_path E f) (mono_path E f) fs1
     = (Inr rate, fs2) \<Longrightarrow>
   transcribeAudio E (mono_path E f) rate (s\<lparr>disk := fs2\<rparr>) = (Inr t, s1) \<Longrightarrow>
   saveTranscriptionToCloud E t (filename f) s1 = (Inl e, s2) \<Longrightarrow>
   process_upload_files E em f s = (failed_to_create, s1)"
  by (auto simp: process_upload_files_def Let_def dest: saveTranscriptionToCloud_failure)

lemma post_speechtotext_result:
  assumes "post_speechtotext E req s = (res, s')"
  shows "res = failed_to_create \<and> s' = s \<or> res = required_fields \<and> s' = s
       \<or> (\<exists>b em ti. req_body req = Some b \<and> title b = Some ti
             \<and> (\<forall>f. req_file req = Some f \<longrightarrow> process_upload E em ti f s = (res, s')))"
  using assms by (auto simp: post_speechtotext_def split: option.splits if_splits)

lemma post_speechtotext_files_result:
  assumes "post_speechtotext_files E req s = (res, s')"
  shows "res = failed_to_create \<and> s' = s \<or> res = required_fields \<and> s' = s
       \<or> (\<exists>em. \<forall>f. req_file req = Some f \<longrightarrow>
             process_upload_files E em f s = (res, s'))"
  using assms by (auto simp: post_speechtotext_files_def split: option.splits if_splits)

lemma upload_failure_db:
  assumes run: "post_speechtotext E req s = (res, s')" and "status res \<noteq> 201"
  shows "db s' = db s \<and> (\<forall>em. get_speechtotext E em s' = get_speechtotext E em s)"
proof -
  from assms have "db s' = db s" by (rule post_speechtotext_db)
  then show ?thesis by (blast intro: get_speechtotext_db)
qed

lemma upload_files_failure_db:
  assumes run: "post_speechtotext_files E req s = (res, s')" and "status res \<noteq> 201"
  shows "db s' = db s \<and> (\<forall>em. get_speechtotext E em s' = get_speechtotext E em s)"
proof -
  from assms have "db s' = db s" by (rule post_speechtotext_files_db)
  then show ?thesis by (blast intro: get_speechtotext_db)
qed

lemma post_speechtotext_outcome:
  assumes run: "post_speechtotext E req s = (res, s')"
    and f: "req_file req = Some f"
    and p: "\<And>em ti. process_upload E em ti f s = (failed_to_create, s1)"
  shows "status res \<noteq> 201 \<and> (s' = s \<or> s' = s1)"
proof -
  from post_speechtotext_result [OF run]
  consider "res = failed_to_create" "s' = s" | "res = required_fields" "s' = s"
    | em ti where "process_upload E em ti f s = (res, s')"
    using f by blast
  then show ?thesis
  proof cases
    case 1
    then show ?thesis by (simp add: status_failed_to_create)
  next
    case 2
    then show ?thesis by (simp add: status_required_fields)
  next
    case 3
    with p [of em ti] show ?thesis by (simp add: status_failed_to_create)
  qed
qed

lemma post_speechtotext_title_outcome:
  assumes run: "post_speechtotext E req s = (res, s')"
    and b: "req_body req = Some b" and ti: "title b = Some ti"
    and f: "req_file req = Some f"
    and p: "\<And>em. process_upload E em ti f s = (failed_to_create, s1)"
  shows "status res \<noteq> 201 \<and> (s' = s \<or> s' = s1)"
proof -
  from post_speechtotext_result [OF run]
  consider "res = failed_to_create" "s' = s" | "res = required_fields" "s' = s"
    | em where "process_upload E em ti f s = (res, s')"
    using b ti f by auto
  then show ?thesis
  proof cases
    case 1
    then show ?thesis by (simp add: status_failed_to_create)
  next
    case 2
    then show ?thesis by (simp add: status_required_fields)
  next
    case 3
    with p [of em] show ?thesis by (simp add: status_failed_to_create)
  qed
qed

lemma post_speechtotext_files_outcome:
  assumes run: "post_speechtotext_files E req s = (res, s')"
    and f: "req_file req = Some f"
    and p: "\<And>em. process_upload_files E em f s = (failed_to_create, s1)"
  shows "status res \<noteq> 201 \<and> (s' = s \<or> s' = s1)"
proof -
  from post_speechtotext_files_result [OF run]
  consider "res = failed_to_create" "s' = s" | "res = required_fields" "s' = s"
    | em where "process_upload_files E em f s = (res, s')"
    using f by blast
  then show ?thesis
  proof cases
    case 1
    then show ?thesis by (simp add: status_failed_to_create)
  next
    case 2
    then show ?thesis by (simp add: status_required_fields)
  next
    case 3
    with p [of em] show ?thesis by (simp add: status_failed_to_create)
  qed
qed

text \<open>
  C4: an upload that is not answered \<open>201\<close> leaves the table as it was, so that the lookup
  by email answers as before for every email. A failure of the downmixer ends the request
  with the server unchanged: nothing reaches the recognition service. A failure of the
  transcription or of the storage ends it with the bucket unchanged. In the file-based
  version, whose pipeline starts with the format normalizer, a failure of the normalizer
  or of the downmixer ends the request before anything is sent to the recognition service
  or stored, and a failure of the transcription or of the storage ends it with the bucket
  unchanged.
\<close>

theorem failed_upload_persists_nothing:
  assumes run: "post_speechtotext E req s = (res, s')"
    and run_files: "post_speechtotext_files E req' s = (res', s'')"
  shows "(status res \<noteq> 201 \<longrightarrow>
            db s' = db s \<and> (\<forall>em. get_speechtotext E em s' = get_speechtotext E em s))
       \<and> (\<forall>f e. req_file req = Some f \<longrightarrow>
            convertToMonoBuffer (wav_decode E) (wav_encode E) (buffer f) = Inl e \<longrightarrow>
            status res \<noteq> 201 \<and> s' = s)
       \<and> (\<forall>f mixed e s1. req_file req = Some f \<longrightarrow>
            convertToMonoBuffer (wav_decode E) (wav_encode E) (buffer f) = Inr mixed \<longrightarrow>
            transcribeAudioBuffer E mixed s = (Inl e, s1) \<longrightarrow>
            status res \<noteq> 201 \<and> bucket s' = bucket s)
       \<and> (\<forall>b f ti mixed t s1 e s2. req_body req = Some b \<longrightarrow> req_file req = Some f \<longrightarrow>
            title b = Some ti \<longrightarrow>
            convertToMonoBuffer (wav_decode E) (wav_encode E) (buffer f) = Inr mixed \<longrightarrow>
            transcribeAudioBuffer E mixed s = (Inr t, s1) \<longrightarrow>
            saveTranscriptionToCloud E t ti s1 = (Inl e, s2) \<longrightarrow>
            status res \<noteq> 201 \<and> bucket s' = bucket s)
       \<and> (status res' \<noteq> 201 \<longrightarrow>
            db s'' = db s \<and> (\<forall>em. get_speechtotext E em s'' = get_speechtotext E em s))
       \<and> (\<forall>f e fs1. req_file req' = Some f \<longrightarrow>
            convertAudioToWav E (path f) (temp_path E f) (disk s) = (Inl e, fs1) \<longrightarrow>
            status res' \<noteq> 201 \<and> recognized s'' = recognized s \<and> bucket s'' = bucket s)
       \<and> (\<forall>f c fs1 e fs2. req_file req' = Some f \<longrightarrow>
            convertAudioToWav E (path f) (temp_path E f) (disk s) = (Inr c, fs1) \<longrightarrow>
            convertToMono (wav_decode E) (wav_encode E) (temp_path E f) (mono_path E f) fs1
              = (Inl e, fs2) \<longrightarrow>
            status res' \<noteq> 201 \<and> recognized s'' = recognized s \<and> bucket s'' = bucket s)
       \<and> (\<forall>f c fs1 rate fs2 e s1. req_file req' = Some f \<longrightarrow>
            convertAudioToWav E (path f) (temp_path E f) (disk s) = (Inr c, fs1) \<longrightarrow>
            convertToMono (wav_decode E) (wav_encode E) (temp_path E f) (mono_path E f) fs1
              = (Inr rate, fs2) \<longrightarrow>
            transcribeAudio E (mono_path E f) rate (s\<lparr>disk := fs2\<rparr>) = (Inl e, s1) \<longrightarrow>
            status res' \<noteq> 201 \<and> bucket s'' = bucket s)
       \<and> (\<forall>f c fs1 rate fs2 t s1 e s2. req_file req' = Some f \<longrightarrow>
            convertAudioToWav E (path f) (temp_path E f) (disk s) = (Inr c, fs1) \<longrightarrow>
            convertToMono (wav_decode E) (wav_encode E) (temp_path E f) (mono_path E f) fs1
              = (Inr rate, fs2) \<longrightarrow>
            transcribeAudio E (mono_path E f) rate (s\<lparr>disk := fs2\<rparr>) = (Inr t, s1) \<longrightarrow>
            saveTranscriptionToCloud E t (filename f) s1 = (Inl e, s2) \<longrightarrow>
            status res' \<noteq> 201 \<and> bucket s'' = bucket s)"
  (is "?A \<and> ?B \<and> ?C \<and> ?D \<and> ?E \<and> ?F \<and> ?G \<and> ?H \<and> ?I")
proof -
  have A: ?A
    using upload_failure_db [OF run] by blast
  have E: ?E
    using upload_files_failure_db [OF run_files] by blast
  have B: ?B
  proof (intro allI impI)
    fix f e
    assume f: "req_file req = Some f"
      and c: "convertToMonoBuffer (wav_decode E) (wav_encode E) (buffer f) = Inl e"
    from c have "process_upload E em ti f s = (failed_to_create, s)" for em ti
      by (rule process_upload_downmix_failure)
    with run f have "status res \<noteq> 201 \<and> (s' = s \<or> s' = s)"
      by (rule post_speechtotext_outcome)
    then show "status res \<noteq> 201 \<and> s' = s" by simp
  qed
  have C: ?C
  proof (intro allI impI)
    fix f mixed e s1
    assume f: "req_file req = Some f"
      and c: "convertToMonoBuffer (wav_decode E) (wav_encode E) (buffer f) = Inr mixed"
      and tr: "transcribeAudioBuffer E mixed s = (Inl e, s1)"
    from c tr have "process_upload E em ti f s = (failed_to_create, s1)" for em ti
      by (rule process_upload_transcription_failure)
    with run f have "status res \<noteq> 201 \<and> (s' = s \<or> s' = s1)"
      by (rule post_speechtotext_outcome)
    moreover from tr have "bucket s1 = bucket s"
      by (simp add: transcribeAudioBuffer_frame)
    ultimately show "status res \<noteq> 201 \<and> bucket s' = bucket s" by auto
  qed
  have D: ?D
  proof (intro allI impI)
    fix b f ti mixed t s1 e s2
    assume b: "req_body req = Some b" and f: "req_file req = Some f"
      and ti: "title b = Some ti"
      and c: "convertToMonoBuffer (wav_decode E) (wav_encode E) (buffer f) = Inr mixed"
      and tr: "transcribeAudioBuffer E mixed s = (Inr t, s1)"
      and sv: "saveTranscriptionToCloud E t ti s1 = (Inl e, s2)"
    from c tr sv have "process_upload E em ti f s = (failed_to_create, s1)" for em
      by (rule process_upload_storage_failure)
    with run b ti f have "status res \<noteq> 201 \<and> (s' = s \<or> s' = s1)"
      by (rule post_speechtotext_title_outcome)
    moreover from tr have "bucket s1 = bucket s"
      by (simp add: transcribeAudioBuffer_frame)
    ultimately show "status res \<noteq> 201 \<and> bucket s' = bucket s" by auto
  qed
  have F: ?F
  proof (intro allI impI)
    fix f e fs1
    assume f: "req_file req' = Some f"
      and n: "convertAudioToWav E (path f) (temp_path E f) (disk s) = (Inl e, fs1)"
    from n have "process_upload_files E em f s = (failed_to_create, s\<lparr>disk := fs1\<rparr>)" for em
      by (rule process_upload_files_normalizer_failure)
    with run_files f have "status res' \<noteq> 201 \<and> (s'' = s \<or> s'' = s\<lparr>disk := fs1\<rparr>)"
      by (rule post_speechtotext_files_outcome)
    then show "status res' \<noteq> 201 \<and> recognized s'' = recognized s \<and> bucket s'' = bucket s"
      by auto
  qed
  have G: ?G
  proof (intro allI impI)
    fix f c fs1 e fs2
    assume f: "req_file req' = Some f"
      and n: "convertAudioToWav E (path f) (temp_path E f) (disk s) = (Inr c, fs1)"
      and m: "convertToMono (wav_decode E) (wav_encode E) (temp_path E f) (mono_path E f) fs1
        = (Inl e, fs2)"
    from n m have "process_upload_files E em f s = (failed_to_create, s\<lparr>disk := fs2\<rparr>)" for em
      by (rule process_upload_files_downmix_failure)
    with run_files f have "status res' \<noteq> 201 \<and> (s'' = s \<or> s'' = s\<lparr>disk := fs2\<rparr>)"
      by (rule post_speechtotext_files_outcome)
    then show "status res' \<noteq> 201 \<and> recognized s'' = recognized s \<and> bucket s'' = bucket s"
      by auto
  qed
  have H: ?H
  proof (intro allI impI)
    fix f c fs1 rate fs2 e s1
    assume f: "req_file req' = Some f"
      and n: "convertAudioToWav E (path f) (temp_path E f) (disk s) = (Inr c, fs1)"
      and m: "convertToMono (wav_decode E) (wav_encode E) (temp_path E f) (mono_path E f) fs1
        = (Inr rate, fs2)"
      and tr: "transcribeAudio E (mono_path E f) rate (s\<lparr>disk := fs2\<rparr>) = (Inl e, s1)"
    from n m tr have "process_upload_files E em f s = (failed_to_create, s1)" for em
      by (rule process_upload_files_transcription_failure)
    with run_files f have "status res' \<noteq> 201 \<and> (s'' = s \<or> s'' = s1)"
      by (rule post_speechtotext_files_outcome)
    moreover from tr have "bucket s1 = bucket (s\<lparr>disk := fs2\<rparr>)"
      by (simp add: transcribeAudio_frame)
    ultimately show "status res' \<noteq> 201 \<and> bucket s'' = bucket s" by auto
  qed
  have I: ?I
  proof (intro allI impI)
    fix f c fs1 rate fs2 t s1 e s2
    assume f: "req_file req' = Some f"
      and n: "convertAudioToWav E (path f) (temp_path E f) (disk s) = (Inr c, fs1)"
      and m: "convertToMono (wav_decode E) (wav_encode E) (temp_path E f) (mono_path E f) fs1
        = (Inr rate, fs2)"
      and tr: "transcribeAudio E (mono_path E f) rate (s\<lparr>disk := fs2\<rparr>) = (Inr t, s1)"
      and sv: "saveTranscriptionToCloud E t (filename f) s1 = (Inl e, s2)"
    from n m tr sv have "process_upload_files E em f s = (failed_to_create, s1)" for em
      by (rule process_upload_files_storage_failure)
    with run_files f have "status res' \<noteq> 201 \<and> (s'' = s \<or> s'' = s1)"
      by (rule post_speechtotext_files_outcome)
    moreover from tr have "bucket s1 = bucket (s\<lparr>disk := fs2\<rparr>)"
      by (simp add: transcribeAudio_frame)
    ultimately show "status res' \<noteq> 201 \<and> bucket s'' = bucket s" by auto
  qed
  from A B C D E F G H I show ?thesis by (intro conjI)
qed

theorem failed_upload_persists_nothing_witness:
  "post_speechtotext rejecting_env
      \<lparr>req_body = Some \<lparr>email = Some ''a@b.c'', title = Some ''memo''\<rparr>,
       req_file = Some \<lparr>buffer = [9]\<rparr>\<rparr>
      sample_server
     = (\<lparr>status = 500, body = FailureBody ''Failed to create transcription''\<rparr>, sample_server)
   \<and> post_speechtotext_files rejecting_env
      \<lparr>req_body = Some \<lparr>email = Some ''a@b.c'', title = Some ''memo''\<rparr>,
       req_file = Some \<lparr>filename = ''in.wav'', path = ''uploads/in.wav''\<rparr>\<rparr>
      sample_server
     = (\<lparr>status = 500, body = FailureBody ''Failed to create transcription''\<rparr>, sample_server)
   \<and> status (fst (post_speechtotext offline_env
      \<lparr>req_body = Some \<lparr>email = Some ''a@b.c'', title = Some ''memo''\<rparr>,
       req_file = Some \<lparr>buffer = [2]\<rparr>\<rparr>
      sample_server)) = 500
   \<and> db (snd (post_speechtotext offline_env
      \<lparr>req_body = Some \<lparr>email = Some ''a@b.c'', title = Some ''memo''\<rparr>,
       req_file = Some \<lparr>buffer = [2]\<rparr>\<rparr>
      sample_server)) = db sample_server
   \<and> get_speechtotext offline_env ''a@b.c'' (snd (post_speechtotext offline_env
      \<lparr>req_body = Some \<lparr>email = Some ''a@b.c'', title = Some ''memo''\<rparr>,
       req_file = Some \<lparr>buffer = [2]\<rparr>\<rparr>
      sample_server)) = get_speechtotext offline_env ''a@b.c'' sample_server"
proof -
  let ?bad = "\<lparr>req_body = Some \<lparr>email = Some ''a@b.c'', title = Some ''memo''\<rparr>,
      req_file = Some \<lparr>buffer = [9]\<rparr>\<rparr>"
  let ?good = "\<lparr>req_body = Some \<lparr>email = Some ''a@b.c'', title = Some ''memo''\<rparr>,
      req_file = Some \<lparr>buffer = [2]\<rparr>\<rparr>"
  let ?stored = "\<lparr>req_body = Some \<lparr>email = Some ''a@b.c'', title = Some ''memo''\<rparr>,
      req_file = Some \<lparr>filename = ''in.wav'', path = ''uploads/in.wav''\<rparr>\<rparr>"
  have conv: "convertToMonoBuffer (wav_decode rejecting_env) (wav_encode rejecting_env) [9]
      = Inl (Error ''Invalid WAV file'')"
    by (simp add: rejecting_env_def sample_env_def convertToMonoBuffer_def table_decode_def)
  have run: "post_speechtotext rejecting_env ?bad sample_server =
      (failed_to_create, sample_server)"
    by (simp add: post_speechtotext_def process_upload_def conv)
  have run_files: "post_speechtotext_files rejecting_env ?stored sample_server =
      (failed_to_create, sample_server)"
    by (simp add: post_speechtotext_files_def process_upload_files_def convertAudioToWav_def
        temp_path_def rejecting_env_def sample_env_def failing_exec_def sample_server_def)
  obtain res s' where off: "post_speechtotext offline_env ?good sample_server = (res, s')"
    by (cases "post_speechtotext offline_env ?good sample_server")
  have st: "status res = 500"
    using off
    by (auto simp: post_speechtotext_def process_upload_def offline_env_def sample_env_def
        convertToMonoBuffer_def table_decode_def table_encode_def stereo_wave_def
        mono_wave_def monoChannel_silence
        transcribeAudioBuffer_def getSampleRateFromWavBuffer_def send_recognize_def
        saveTranscriptionToCloud_def failed_to_create_def)
  obtain res' s'' where off_files:
    "post_speechtotext_files offline_env ?stored sample_server = (res', s'')"
    by (cases "post_speechtotext_files offline_env ?stored sample_server")
  from failed_upload_persists_nothing [OF off off_files] st
  have "db s' = db sample_server"
    and "get_speechtotext offline_env ''a@b.c'' s' = get_speechtotext offline_env ''a@b.c'' sample_server"
    by simp_all
  moreover
  from failed_upload_persists_nothing [OF run run_files]
  have "status failed_to_create \<noteq> 201"
    using conv by simp
  ultimately show ?thesis
    using run run_files off st by (simp add: failed_to_create_def)
qed

section \<open>The format normalizer: errors and temporary files\<close>

text \<open>
  A disk that cannot be written, an input the transcoder does not recognise and a
  transcoder that cannot be started all end in the same error value.
\<close>

theorem normalizer_errors_not_distinct:
  "fst (convertAudioToWavBuffer sample_env [7] readonly_disk)
     = Inl (Error ''Error saat konversi audio ke WAV.'')
   \<and> fst (convertAudioToWavBuffer rejecting_env [7] sample_disk)
     = Inl (Error ''Error saat konversi audio ke WAV.'')
   \<and> fst (convertAudioToWavBuffer crashing_env [7] sample_disk)
     = Inl (Error ''Error saat konversi audio ke WAV.'')"
  by (simp add: convertAudioToWavBuffer_def writeFileSync_def readonly_disk_def sample_disk_def
      sample_env_def rejecting_env_def crashing_env_def failing_exec_def conversion_error_def
      path_join_def)

text \<open>
  C5, as the code has it: the normalizer returns the path of the output file exactly when
  the temporary file could be written and the transcoder, asked for \<open>pcm_s16le\<close> at
  16000 Hz, did not throw; in every other case it throws one and the same error, whatever
  the cause. The file-based version does the same with the files its caller names.
\<close>

theorem normalizer_result:
  "fst (convertAudioToWavBuffer E buf fs) =
     (if writable fs (path_join (dirname E) ''temp.wav'')
         \<and> fst (execSync E
                 (ffmpeg_command (ffmpeg E) (path_join (dirname E) ''temp.wav'')
                    (path_join (dirname E) ''output.wav''))
                 (fs\<lparr>files := (files fs)(path_join (dirname E) ''temp.wav'' \<mapsto> buf)\<rparr>)) = None
      then Inr (path_join (dirname E) ''output.wav'')
      else Inl conversion_error)
   \<and> fst (convertAudioToWav E inputFile tempWavFile fs) =
     (if fst (execSync E (ffmpeg_command (ffmpeg E) inputFile tempWavFile) fs) = None
      then Inr tempWavFile
      else Inl conversion_error)"
  by (auto simp: convertAudioToWavBuffer_def convertAudioToWav_def writeFileSync_def Let_def
      split: prod.splits option.splits)

text \<open>
  After a successful run and after a failed one, the temporary file \<open>/app/temp.wav\<close>,
  which did not exist before, holds the input.
\<close>

theorem temporary_file_left_behind:
  "files sample_disk ''/app/temp.wav'' = None
   \<and> fst (convertAudioToWavBuffer sample_env [7] sample_disk) = Inr ''/app/output.wav''
   \<and> files (snd (convertAudioToWavBuffer sample_env [7] sample_disk)) ''/app/temp.wav''
     = Some [7]
   \<and> fst (convertAudioToWavBuffer rejecting_env [7] sample_disk)
     = Inl (Error ''Error saat konversi audio ke WAV.'')
   \<and> files (snd (convertAudioToWavBuffer rejecting_env [7] sample_disk)) ''/app/temp.wav''
     = Some [7]"
  by (simp add: convertAudioToWavBuffer_def writeFileSync_def sample_disk_def
      sample_env_def rejecting_env_def run_ffmpeg_def failing_exec_def conversion_error_def
      path_join_def)

text \<open>
  C9, as the code has it: the normalizer removes nothing. Where the temporary file could be
  written it still holds the input on every exit, success or failure, provided the
  transcoder leaves that file alone; where it could not be written the files are as
  before. The file-based version leaves the files exactly as the transcoder left them.
\<close>

theorem normalizer_never_cleans_up:
  assumes "\<And>cmd fs1. files (snd (execSync E cmd fs1)) (path_join (dirname E) ''temp.wav'')
             = files fs1 (path_join (dirname E) ''temp.wav'')"
  shows "(writable fs (path_join (dirname E) ''temp.wav'') \<longrightarrow>
            files (snd (convertAudioToWavBuffer E buf fs)) (path_join (dirname E) ''temp.wav'')
              = Some buf)
       \<and> (\<not> writable fs (path_join (dirname E) ''temp.wav'') \<longrightarrow>
            snd (convertAudioToWavBuffer E buf fs) = fs)
       \<and> snd (convertAudioToWav E inputFile tempWavFile fs)
           = snd (execSync E (ffmpeg_command (ffmpeg E) inputFile tempWavFile) fs)"
proof (intro conjI impI)
  let ?temp = "path_join (dirname E) ''temp.wav''"
  let ?cmd = "ffmpeg_command (ffmpeg E) ?temp (path_join (dirname E) ''output.wav'')"
  assume w: "writable fs ?temp"
  let ?fs1 = "fs\<lparr>files := (files fs)(?temp \<mapsto> buf)\<rparr>"
  from w have "snd (convertAudioToWavBuffer E buf fs) = snd (execSync E ?cmd ?fs1)"
    by (auto simp: convertAudioToWavBuffer_def writeFileSync_def Let_def
        split: prod.splits option.splits)
  then show "files (snd (convertAudioToWavBuffer E buf fs)) ?temp = Some buf"
    using assms [of ?cmd ?fs1] by simp
next
  assume "\<not> writable fs (path_join (dirname E) ''temp.wav'')"
  then show "snd (convertAudioToWavBuffer E buf fs) = fs"
    by (simp add: convertAudioToWavBuffer_def writeFileSync_def)
next
  show "snd (convertAudioToWav E inputFile tempWavFile fs)
      = snd (execSync E (ffmpeg_command (ffmpeg E) inputFile tempWavFile) fs)"
    by (auto simp: convertAudioToWav_def split: prod.splits option.splits)
qed

theorem normalizer_never_cleans_up_witness:
  "writable sample_disk ''/app/temp.wav''
   \<and> files (snd (convertAudioToWavBuffer sample_env [7] sample_disk)) ''/app/temp.wav''
       = Some [7]
   \<and> files (snd (convertAudioToWavBuffer crashing_env [7] sample_disk)) ''/app/temp.wav''
       = Some [7]
   \<and> \<not> writable readonly_disk ''/app/temp.wav''
   \<and> snd (convertAudioToWavBuffer sample_env [7] readonly_disk) = readonly_disk"
proof -
  have t: "path_join (dirname sample_env) ''temp.wav'' = ''/app/temp.wav''"
    and t': "path_join (dirname crashing_env) ''temp.wav'' = ''/app/temp.wav''"
    by (simp_all add: path_join_def sample_env_def crashing_env_def)
  have a: "files (snd (execSync sample_env cmd fs1)) (path_join (dirname sample_env) ''temp.wav'')
      = files fs1 (path_join (dirname sample_env) ''temp.wav'')" for cmd fs1
    by (simp add: sample_env_def run_ffmpeg_def path_join_def)
  have b: "files (snd (execSync crashing_env cmd fs1))
      (path_join (dirname crashing_env) ''temp.wav'')
      = files fs1 (path_join (dirname crashing_env) ''temp.wav'')" for cmd fs1
    by (simp add: crashing_env_def failing_exec_def)
  have w: "writable sample_disk ''/app/temp.wav''"
    and r: "\<not> writable readonly_disk ''/app/temp.wav''"
    by (simp_all add: sample_disk_def readonly_disk_def)
  from normalizer_never_cleans_up [of sample_env sample_disk "[7]", OF a]
    normalizer_never_cleans_up [of crashing_env sample_disk "[7]", OF b]
    normalizer_never_cleans_up [of sample_env readonly_disk "[7]", OF a]
    w r t t'
  show ?thesis by simp
qed

end
